theory Spec2Isabelle
  imports Main "HOL-Library.Sublist"
begin

section \<open>JSON text (\<^verbatim>\<open>JSON.stringify\<close> and \<^verbatim>\<open>JSON.parse\<close>)\<close>

text \<open>
  The command persists its configuration with \<^verbatim>\<open>JSON.stringify(config, null, 2)\<close>.
  The values it serialises are objects whose leaves are strings, so the model of a JSON
  value has these two forms. Serialisation follows ECMAScript's \<^verbatim>\<open>QuoteJSONString\<close> and
  \<^verbatim>\<open>SerializeJSONObject\<close> with a gap of two spaces. A string is a list of 8-bit
  characters, standing for the code units below 256.
\<close>

datatype json = JString string | JObject "(string \<times> json) list"

definition hex_digit :: "nat \<Rightarrow> char" where
  "hex_digit n = ''0123456789abcdef'' ! n"

definition quote_char :: "char \<Rightarrow> string" where
  "quote_char c =
     (if c = CHR 0x08 then [CHR 0x5C, CHR ''b'']
      else if c = CHR 0x09 then [CHR 0x5C, CHR ''t'']
      else if c = CHR 0x0A then [CHR 0x5C, CHR ''n'']
      else if c = CHR 0x0C then [CHR 0x5C, CHR ''f'']
      else if c = CHR 0x0D then [CHR 0x5C, CHR ''r'']
      else if c = CHR 0x22 then [CHR 0x5C, CHR 0x22]
      else if c = CHR 0x5C then [CHR 0x5C, CHR 0x5C]
      else if (of_char c :: nat) < 0x20
        then [CHR 0x5C, CHR ''u'', CHR ''0'', CHR ''0'',
              hex_digit (of_char c div 16), hex_digit (of_char c mod 16)]
      else [c])"

definition QuoteJSONString :: "string \<Rightarrow> string" where
  "QuoteJSONString s = CHR 0x22 # concat (map quote_char s) @ [CHR 0x22]"

fun SerializeJSONProperty :: "string \<Rightarrow> json \<Rightarrow> string"
  and SerializeJSONMembers :: "string \<Rightarrow> (string \<times> json) list \<Rightarrow> string" where
  "SerializeJSONProperty indent (JString s) = QuoteJSONString s"
| "SerializeJSONProperty indent (JObject []) = ''{}''"
| "SerializeJSONProperty indent (JObject (p # ps)) =
     ''{'' @ [CHR 0x0A] @ (indent @ ''  '') @ SerializeJSONMembers (indent @ ''  '') (p # ps)
       @ [CHR 0x0A] @ indent @ ''}''"
| "SerializeJSONMembers indent [] = []"
| "SerializeJSONMembers indent ((k, v) # ps) =
     QuoteJSONString k @ '': '' @ SerializeJSONProperty indent v
       @ (if ps = [] then [] else '','' @ [CHR 0x0A] @ indent @ SerializeJSONMembers indent ps)"

definition JSON_stringify :: "json \<Rightarrow> string" where
  "JSON_stringify v = SerializeJSONProperty [] v"

text \<open>
  \<^verbatim>\<open>JSON.parse\<close>, restricted to the same two forms of value: a recursive-descent
  reader over the text. \<open>None\<close> stands for a \<^verbatim>\<open>SyntaxError\<close> and for text that holds
  any other kind of value. The reader's recursion is bounded by the length of the text.
\<close>

definition is_ws :: "char \<Rightarrow> bool" where
  "is_ws c = (c = CHR 0x20 \<or> c = CHR 0x09 \<or> c = CHR 0x0A \<or> c = CHR 0x0D)"

definition skip_ws :: "string \<Rightarrow> string" where
  "skip_ws s = dropWhile is_ws s"

definition hex_value :: "char \<Rightarrow> nat option" where
  "hex_value c =
     (let n = (of_char c :: nat) in
      if 48 \<le> n \<and> n \<le> 57 then Some (n - 48)
      else if 97 \<le> n \<and> n \<le> 102 then Some (n - 87)
      else if 65 \<le> n \<and> n \<le> 70 then Some (n - 55)
      else None)"

definition simple_escape :: "char \<Rightarrow> char option" where
  "simple_escape e =
     (if e = CHR 0x22 then Some (CHR 0x22)
      else if e = CHR 0x5C then Some (CHR 0x5C)
      else if e = CHR ''/'' then Some (CHR ''/'')
      else if e = CHR ''b'' then Some (CHR 0x08)
      else if e = CHR ''f'' then Some (CHR 0x0C)
      else if e = CHR ''n'' then Some (CHR 0x0A)
      else if e = CHR ''r'' then Some (CHR 0x0D)
      else if e = CHR ''t'' then Some (CHR 0x09)
      else None)"

definition code_unit :: "char \<Rightarrow> char \<Rightarrow> char \<Rightarrow> char \<Rightarrow> char option" where
  "code_unit h1 h2 h3 h4 =
     (case (hex_value h1, hex_value h2, hex_value h3, hex_value h4) of
        (Some a, Some b, Some c, Some d) \<Rightarrow>
          (let n = ((a * 16 + b) * 16 + c) * 16 + d
           in if n < 256 then Some (char_of n) else None)
      | _ \<Rightarrow> None)"

definition cons_char :: "char \<Rightarrow> (string \<times> string) option \<Rightarrow> (string \<times> string) option" where
  "cons_char c r = map_option (\<lambda>(s, rest). (c # s, rest)) r"

fun parse_string_body :: "string \<Rightarrow> (string \<times> string) option" where
  "parse_string_body [] = None"
| "parse_string_body (c # cs) =
     (if c = CHR 0x22 then Some ([], cs)
      else if c = CHR 0x5C then
        (case cs of
           [] \<Rightarrow> None
         | e # r \<Rightarrow>
             (if e = CHR ''u'' then
                (case r of
                   h1 # h2 # h3 # h4 # r' \<Rightarrow>
                     (case code_unit h1 h2 h3 h4 of
                        Some u \<Rightarrow> cons_char u (parse_string_body r')
                      | None \<Rightarrow> None)
                 | _ \<Rightarrow> None)
              else
                (case simple_escape e of
                   Some u \<Rightarrow> cons_char u (parse_string_body r)
                 | None \<Rightarrow> None)))
      else if (of_char c :: nat) < 0x20 then None
      else cons_char c (parse_string_body cs))"

fun parse_value :: "nat \<Rightarrow> string \<Rightarrow> (json \<times> string) option"
  and parse_members :: "nat \<Rightarrow> string \<Rightarrow> ((string \<times> json) list \<times> string) option" where
  "parse_value 0 s = None"
| "parse_value (Suc n) s =
     (case skip_ws s of
        [] \<Rightarrow> None
      | c # r \<Rightarrow>
          (if c = CHR 0x22 then map_option (\<lambda>(x, rest). (JString x, rest)) (parse_string_body r)
           else if c = CHR ''{'' then
             (case skip_ws r of
                [] \<Rightarrow> None
              | c' # r' \<Rightarrow>
                  (if c' = CHR ''}'' then Some (JObject [], r')
                   else map_option (\<lambda>(ps, rest). (JObject ps, rest)) (parse_members n r)))
           else None))"
| "parse_members 0 s = None"
| "parse_members (Suc n) s =
     (case skip_ws s of
        [] \<Rightarrow> None
      | c # r \<Rightarrow>
          (if c = CHR 0x22 then
             (case parse_string_body r of
                None \<Rightarrow> None
              | Some (k, r1) \<Rightarrow>
                  (case skip_ws r1 of
                     [] \<Rightarrow> None
                   | c1 # r2 \<Rightarrow>
                       (if c1 = CHR '':'' then
                          (case parse_value n r2 of
                             None \<Rightarrow> None
                           | Some (v, r3) \<Rightarrow>
                               (case skip_ws r3 of
                                  [] \<Rightarrow> None
                                | c3 # r4 \<Rightarrow>
                                    (if c3 = CHR '','' then
                                       map_option (\<lambda>(ps, rest). ((k, v) # ps, rest)) (parse_members n r4)
                                     else if c3 = CHR ''}'' then Some ([(k, v)], r4)
                                     else None)))
                        else None)))
           else None))"

definition JSON_parse :: "string \<Rightarrow> json option" where
  "JSON_parse s =
     (case parse_value (length s) s of
        None \<Rightarrow> None
      | Some (v, rest) \<Rightarrow> if skip_ws rest = [] then Some v else None)"

text \<open>The fuel that reading a value back needs: its nesting, counted in members and values.\<close>

fun fuel_value :: "json \<Rightarrow> nat"
  and fuel_members :: "(string \<times> json) list \<Rightarrow> nat" where
  "fuel_value (JString s) = 1"
| "fuel_value (JObject ps) = Suc (fuel_members ps)"
| "fuel_members [] = 0"
| "fuel_members ((k, v) # ps) = Suc (max (fuel_value v) (fuel_members ps))"

section \<open>The world the command runs in\<close>

text \<open>
  \<^verbatim>\<open>init.ts\<close> is sequential glue over the file system, the terminal, one remote
  service and one subprocess. The model threads an explicit world through every call:
  the file system (absolute, normalised path strings to nodes) and the trace of the
  calls the command has made so far, oldest first. Errors are values: a call returns
  normally (\<open>Ok\<close>), throws (\<open>Throw\<close>, which the \<^verbatim>\<open>try\<close> block of the action
  catches) or ends the process (\<open>Exit\<close>, \<^verbatim>\<open>process.exit\<close>, which no handler sees).
\<close>

type_synonym path = string

datatype node = File string | Directory

datatype error =
    Error string
  | TypeError string
  | ErrnoException string path

datatype stdio = Inherit | Pipe

record Theme =
  Theme_id :: string
  Theme_name :: string

record InitData =
  initData_css :: string
  dependencies :: "string list"

record ThemeConfig =
  name :: string
  css :: string

record AliasConfig =
  components :: string

record ResolvedPaths =
  resolved_components :: path
  resolved_css :: path

record RawConfig =
  theme :: ThemeConfig
  alias' :: AliasConfig

record Config = RawConfig +
  resolvedPaths :: ResolvedPaths

datatype event =
    LoggerInfo string
  | LoggerError string
  | SpinnerStart string
  | SpinnerSucceed string
  | SpinnerFail string
  | ExistsSync path
  | CheckPackageExists string path
  | GetThemes
  | Prompt string
  | ResolveConfigPaths path RawConfig
  | WriteFile path string
  | Mkdir path
  | GetInitData string
  | GetPackageManager path
  | Execa string "string list" path stdio
  | HandleError error
  | Unlink path

record world =
  fs :: "path \<rightharpoonup> node"
  trace :: "event list"

datatype 'a result = Ok 'a world | Throw error world | Exit nat world

type_synonym 'a prog = "world \<Rightarrow> 'a result"

definition return :: "'a \<Rightarrow> 'a prog" where
  "return x w = Ok x w"

definition throw :: "error \<Rightarrow> 'a prog" where
  "throw e w = Throw e w"

definition process_exit :: "nat \<Rightarrow> 'a prog" where
  "process_exit code w = Exit code w"

definition bind :: "'a prog \<Rightarrow> ('a \<Rightarrow> 'b prog) \<Rightarrow> 'b prog" where
  "bind m f w =
     (case m w of
        Ok x w' \<Rightarrow> f x w'
      | Throw e w' \<Rightarrow> Throw e w'
      | Exit code w' \<Rightarrow> Exit code w')"

definition emit :: "event \<Rightarrow> unit prog" where
  "emit e w = Ok () (w\<lparr>trace := trace w @ [e]\<rparr>)"

subsection \<open>Paths and the file system (Node's \<^verbatim>\<open>path\<close> and \<^verbatim>\<open>fs\<close>)\<close>

text \<open>
  \<^verbatim>\<open>path.resolve(cwd, segment)\<close> for a \<^verbatim>\<open>cwd\<close> that is already absolute and
  normalised (the action's first statement is \<^verbatim>\<open>path.resolve(options.cwd)\<close>) and a
  literal one-segment file name.
\<close>

definition path_resolve :: "path \<Rightarrow> string \<Rightarrow> path" where
  "path_resolve cwd segment = (if cwd = ''/'' then cwd @ segment else cwd @ ''/'' @ segment)"

text \<open>
  \<^verbatim>\<open>path.dirname\<close> (POSIX): scan from the end down to index 1, skip trailing
  slashes, skip the last segment, and cut at the slash before it.
\<close>

definition dirname :: "path \<Rightarrow> path" where
  "dirname p =
     (case p of
        [] \<Rightarrow> ''.''
      | c # cs \<Rightarrow>
          (case dropWhile (\<lambda>x. x \<noteq> CHR ''/'') (dropWhile (\<lambda>x. x = CHR ''/'') (rev cs)) of
             [] \<Rightarrow> if c = CHR ''/'' then ''/'' else ''.''
           | s # front \<Rightarrow> if c = CHR ''/'' \<and> front = [] then ''//'' else c # rev front))"

text \<open>The directories \<^verbatim>\<open>mkdir -p\<close> walks through, outermost first, ending with the path.\<close>

fun ancestors :: "nat \<Rightarrow> path \<Rightarrow> path list" where
  "ancestors 0 p = [p]"
| "ancestors (Suc n) p = (if dirname p = p then [p] else ancestors n (dirname p) @ [p])"

fun make_directories :: "path list \<Rightarrow> (path \<rightharpoonup> node) \<Rightarrow> error + (path \<rightharpoonup> node)" where
  "make_directories [] f = Inr f"
| "make_directories (d # ds) f =
     (case f d of
        Some (File content) \<Rightarrow> Inl (ErrnoException (if ds = [] then ''EEXIST'' else ''ENOTDIR'') d)
      | Some Directory \<Rightarrow> make_directories ds f
      | None \<Rightarrow> make_directories ds (f(d \<mapsto> Directory)))"

definition existsSync :: "path \<Rightarrow> bool prog" where
  "existsSync p w = Ok (fs w p \<noteq> None) (w\<lparr>trace := trace w @ [ExistsSync p]\<rparr>)"

text \<open>\<^verbatim>\<open>fs.mkdir(p, { recursive: true })\<close>.\<close>

definition mkdir :: "path \<Rightarrow> unit prog" where
  "mkdir p w =
     (let w' = w\<lparr>trace := trace w @ [Mkdir p]\<rparr>
      in case make_directories (ancestors (length p) p) (fs w) of
           Inl e \<Rightarrow> Throw e w'
         | Inr f \<Rightarrow> Ok () (w'\<lparr>fs := f\<rparr>))"

text \<open>\<^verbatim>\<open>fs.writeFile(p, data, "utf8")\<close>: creates or truncates a file in an existing directory.\<close>

definition writeFile :: "path \<Rightarrow> string \<Rightarrow> unit prog" where
  "writeFile p content w =
     (let w' = w\<lparr>trace := trace w @ [WriteFile p content]\<rparr>
      in case fs w p of
           Some Directory \<Rightarrow> Throw (ErrnoException ''EISDIR'' p) w'
         | _ \<Rightarrow>
             (case fs w (dirname p) of
                Some Directory \<Rightarrow> Ok () (w'\<lparr>fs := (fs w)(p \<mapsto> File content)\<rparr>)
              | Some (File other) \<Rightarrow> Throw (ErrnoException ''ENOTDIR'' p) w'
              | None \<Rightarrow> Throw (ErrnoException ''ENOENT'' p) w'))"

definition unlink :: "path \<Rightarrow> unit prog" where
  "unlink p w =
     (let w' = w\<lparr>trace := trace w @ [Unlink p]\<rparr>
      in case fs w p of
           Some (File content) \<Rightarrow> Ok () (w'\<lparr>fs := (fs w)(p := None)\<rparr>)
         | Some Directory \<Rightarrow> Throw (ErrnoException ''EISDIR'' p) w'
         | None \<Rightarrow> Throw (ErrnoException ''ENOENT'' p) w')"

subsection \<open>The collaborators outside \<^verbatim>\<open>init.ts\<close>\<close>

text \<open>
  The helpers the command imports (\<^verbatim>\<open>checkPackageExists\<close>, \<^verbatim>\<open>getThemes\<close>,
  \<^verbatim>\<open>resolveConfigPaths\<close>, \<^verbatim>\<open>getInitData\<close>, \<^verbatim>\<open>getPackageManager\<close>,
  \<^verbatim>\<open>handleError\<close>), the subprocess and the operator at the terminal are parameters
  of the model: one record holds what each of them answers. A helper that can reject
  answers with an error or a value. \<^verbatim>\<open>resolveConfigPaths\<close> answers with the two
  resolved paths, and the configuration it returns is the one it was given, extended by
  them. \<^verbatim>\<open>handleError\<close> answers \<open>Some code\<close> when it ends the process with that exit
  code and \<open>None\<close> when it returns to the \<^verbatim>\<open>catch\<close> block.
\<close>

datatype 'a answer = Cancelled | Answered 'a

record externals =
  checkPackageExists_reply :: "string \<Rightarrow> path \<Rightarrow> bool"
  getThemes_reply :: "error + Theme list"
  operator_theme :: "nat answer"
  operator_globalCSS :: "string answer"
  operator_components :: "string answer"
  operator_proceed :: "bool answer"
  resolveConfigPaths_reply :: "path \<Rightarrow> RawConfig \<Rightarrow> error + ResolvedPaths"
  getInitData_reply :: "string \<Rightarrow> error + InitData"
  getPackageManager_reply :: "path \<Rightarrow> string"
  execa_reply :: "string \<Rightarrow> string list \<Rightarrow> path \<Rightarrow> error option"
  handleError_reply :: "error \<Rightarrow> nat option"

definition logger_info :: "string \<Rightarrow> unit prog" where
  "logger_info msg = emit (LoggerInfo msg)"

definition logger_error :: "string \<Rightarrow> unit prog" where
  "logger_error msg = emit (LoggerError msg)"

definition spinner_start :: "string \<Rightarrow> unit prog" where
  "spinner_start label = emit (SpinnerStart label)"

definition spinner_succeed :: "string \<Rightarrow> unit prog" where
  "spinner_succeed label = emit (SpinnerSucceed label)"

definition spinner_fail :: "string \<Rightarrow> unit prog" where
  "spinner_fail label = emit (SpinnerFail label)"

definition checkPackageExists :: "externals \<Rightarrow> string \<Rightarrow> path \<Rightarrow> bool prog" where
  "checkPackageExists E pkg cwd =
     bind (emit (CheckPackageExists pkg cwd)) (\<lambda>_. return (checkPackageExists_reply E pkg cwd))"

definition getThemes :: "externals \<Rightarrow> Theme list prog" where
  "getThemes E =
     bind (emit GetThemes) (\<lambda>_.
       case getThemes_reply E of Inl e \<Rightarrow> throw e | Inr themes \<Rightarrow> return themes)"

definition resolveConfigPaths :: "externals \<Rightarrow> path \<Rightarrow> RawConfig \<Rightarrow> Config prog" where
  "resolveConfigPaths E cwd config =
     bind (emit (ResolveConfigPaths cwd config)) (\<lambda>_.
       case resolveConfigPaths_reply E cwd config of
         Inl e \<Rightarrow> throw e
       | Inr paths \<Rightarrow>
           return \<lparr>theme = theme config, alias' = alias' config, resolvedPaths = paths\<rparr>)"

definition getInitData :: "externals \<Rightarrow> string \<Rightarrow> InitData prog" where
  "getInitData E theme_name =
     bind (emit (GetInitData theme_name)) (\<lambda>_.
       case getInitData_reply E theme_name of Inl e \<Rightarrow> throw e | Inr d \<Rightarrow> return d)"

definition getPackageManager :: "externals \<Rightarrow> path \<Rightarrow> string prog" where
  "getPackageManager E cwd =
     bind (emit (GetPackageManager cwd)) (\<lambda>_. return (getPackageManager_reply E cwd))"

text \<open>
  \<^verbatim>\<open>await execa(file, args, { cwd, stdio })\<close>: one subprocess, awaited; a failed
  subprocess rejects. What the subprocess does to the file system is outside the model.
\<close>

definition execa :: "externals \<Rightarrow> string \<Rightarrow> string list \<Rightarrow> path \<Rightarrow> stdio \<Rightarrow> unit prog" where
  "execa E file args cwd io =
     bind (emit (Execa file args cwd io)) (\<lambda>_.
       case execa_reply E file args cwd of Some e \<Rightarrow> throw e | None \<Rightarrow> return ())"

subsection \<open>The prompts\<close>

text \<open>
  The \<^verbatim>\<open>prompts\<close> library asks its questions in order. A select prompt yields the
  \<^verbatim>\<open>value\<close> of the choice under the cursor (the operator's answer is the cursor's
  index; the library keeps the cursor inside the choices, and submitting with no choice
  under the cursor is its \<^verbatim>\<open>TypeError\<close>). A text prompt yields what was typed, or its
  \<^verbatim>\<open>initial\<close> value when nothing was typed. A cancelled question calls \<^verbatim>\<open>onCancel\<close>;
  without an \<^verbatim>\<open>onCancel\<close> the answers collected so far are returned, so the cancelled
  question's answer is \<^verbatim>\<open>undefined\<close>.
\<close>

definition select_value :: "(string \<times> string) list \<Rightarrow> nat \<Rightarrow> string prog" where
  "select_value choices i =
     (if i < length choices then return (snd (choices ! i))
      else throw (TypeError ''Cannot read properties of undefined''))"

definition text_value :: "string \<Rightarrow> string \<Rightarrow> string" where
  "text_value initial typed = (if typed = [] then initial else typed)"

definition onCancel :: "'a prog" where
  "onCancel = throw (Error ''Terminated Atomic UI setup.'')"

text \<open>The first \<^verbatim>\<open>prompts\<close> call of \<^verbatim>\<open>promptForProjectDetails\<close> (lines 79 to 108).\<close>

definition prompts_options :: "externals \<Rightarrow> Theme list \<Rightarrow> (string \<times> string \<times> string) prog" where
  "prompts_options E themes =
     bind (emit (Prompt ''theme'')) (\<lambda>_.
       case operator_theme E of
         Cancelled \<Rightarrow> onCancel
       | Answered i \<Rightarrow>
     bind (select_value (map (\<lambda>theme. (Theme_name theme, Theme_id theme)) themes) i) (\<lambda>theme.
     bind (emit (Prompt ''globalCSS'')) (\<lambda>_.
       case operator_globalCSS E of
         Cancelled \<Rightarrow> onCancel
       | Answered typed_css \<Rightarrow>
     bind (emit (Prompt ''components'')) (\<lambda>_.
       case operator_components E of
         Cancelled \<Rightarrow> onCancel
       | Answered typed_alias \<Rightarrow>
           return (theme, text_value ''app/globals.css'' typed_css,
                   text_value ''@/components/getatomic'' typed_alias)))))"

text \<open>
  The second call (lines 134 to 139) passes no \<^verbatim>\<open>onCancel\<close>: a cancelled
  confirmation leaves \<^verbatim>\<open>proceed\<close> undefined, which \<^verbatim>\<open>!proceed\<close> reads as false.
\<close>

definition prompts_proceed :: "externals \<Rightarrow> bool prog" where
  "prompts_proceed E =
     bind (emit (Prompt ''proceed'')) (\<lambda>_.
       case operator_proceed E of
         Cancelled \<Rightarrow> return False
       | Answered b \<Rightarrow> return b)"

section \<open>The command: \<^verbatim>\<open>src/commands/init.ts\<close>\<close>

definition config_json :: "RawConfig \<Rightarrow> json" where
  "config_json config =
     JObject
       [(''theme'', JObject [(''name'', JString (name (theme config))),
                             (''css'', JString (css (theme config)))]),
        (''alias'', JObject [(''components'', JString (components (alias' config)))])]"

definition promptForProjectDetails :: "externals \<Rightarrow> path \<Rightarrow> Config prog" where
  "promptForProjectDetails E cwd =
     bind (getThemes E) (\<lambda>themes.
     bind (prompts_options E themes) (\<lambda>(options_theme, options_globalCSS, options_components).
     let atomicComponentsConfig =
           \<lparr>theme = \<lparr>name = options_theme, css = options_globalCSS\<rparr>,
            alias' = \<lparr>components = options_components\<rparr>\<rparr>
     in
     bind (resolveConfigPaths E cwd atomicComponentsConfig) (\<lambda>resolvedConfig.
     if resolved_components (resolvedPaths resolvedConfig) = [] \<or>
        resolved_css (resolvedPaths resolvedConfig) = []
     then throw (Error ''Failed to resolve components alias, please enter a valid alias.'')
     else
     bind (prompts_proceed E) (\<lambda>proceed.
     if \<not> proceed then process_exit 0
     else
     bind (spinner_start ''Writing getatomic.components.json...'') (\<lambda>_.
     bind (writeFile (path_resolve cwd ''getatomic.components.json'')
             (JSON_stringify (config_json atomicComponentsConfig))) (\<lambda>_.
     bind (spinner_succeed ''Writing getatomic.components.json...'') (\<lambda>_.
     return resolvedConfig)))))))"

definition runInit :: "externals \<Rightarrow> path \<Rightarrow> Config \<Rightarrow> unit prog" where
  "runInit E cwd config =
     bind (spinner_start ''Initializing project...'') (\<lambda>_.
     bind (existsSync (resolved_components (resolvedPaths config))) (\<lambda>components_exist.
     bind (if \<not> components_exist then mkdir (resolved_components (resolvedPaths config))
           else return ()) (\<lambda>_.
     bind (getInitData E (name (theme config))) (\<lambda>initData.
     bind (existsSync (resolved_css (resolvedPaths config))) (\<lambda>css_exists.
     bind (if \<not> css_exists then mkdir (dirname (resolved_css (resolvedPaths config)))
           else return ()) (\<lambda>_.
     bind (writeFile (resolved_css (resolvedPaths config)) (initData_css initData)) (\<lambda>_.
     bind (spinner_succeed ''Initializing project...'') (\<lambda>_.
     if dependencies initData = [] then logger_info ''No dependencies to install.''
     else
     bind (spinner_start []) (\<lambda>_.
     bind (logger_info ''Installing dependencies...'') (\<lambda>_.
     bind (getPackageManager E cwd) (\<lambda>packageManager.
     bind (execa E packageManager
             ((if packageManager = ''npm'' then ''install'' else ''add'') # dependencies initData)
             cwd Inherit) (\<lambda>_.
     spinner_succeed []))))))))))))"

text \<open>The \<^verbatim>\<open>try\<close> block of the action (lines 28 to 65).\<close>

definition init_try :: "externals \<Rightarrow> path \<Rightarrow> unit prog" where
  "init_try E cwd =
     bind (logger_info ''Initializing Atomic UI'') (\<lambda>_.
     bind (existsSync cwd) (\<lambda>cwd_exists.
     if \<not> cwd_exists then
       bind (logger_error (''The path '' @ cwd @ '' does not exist. Please try again.'')) (\<lambda>_.
       process_exit 1)
     else
     bind (spinner_start ''Validating project...'') (\<lambda>_.
     bind (existsSync (path_resolve cwd ''package.json'')) (\<lambda>manifest_exists.
     if \<not> manifest_exists then
       bind (spinner_fail ''Validating project...'') (\<lambda>_.
       bind (logger_error (''No package.json found in '' @ cwd @ ''. Please run ''
               @ [CHR 0x22] @ ''npm init'' @ [CHR 0x22] @ '' first.'')) (\<lambda>_.
       process_exit 1))
     else
     bind (checkPackageExists E ''react'' cwd) (\<lambda>has_react.
     bind (if has_react then return True else checkPackageExists E ''next'' cwd) (\<lambda>has_framework.
     if \<not> has_framework then
       bind (spinner_fail ''Validating project...'') (\<lambda>_.
       bind (logger_error ''Missing required dependencies. Please install React or Next first.'') (\<lambda>_.
       process_exit 1))
     else
     bind (spinner_succeed ''Validating project...'') (\<lambda>_.
     bind (promptForProjectDetails E cwd) (\<lambda>projectConfig.
     bind (logger_info ''Project configuration saved to getatomic.components.json'') (\<lambda>_.
     runInit E cwd projectConfig)))))))))"

text \<open>
  How the action ends: the \<^verbatim>\<open>try\<close> block ran to its end (\<open>Done\<close>); the process was
  ended with an exit code (\<open>Exited\<close>); an error was caught, reported and cleaned up after
  (\<open>Handled\<close>); or the \<^verbatim>\<open>catch\<close> block itself threw (\<open>Uncaught\<close>).
\<close>

datatype outcome = Done | Exited nat | Handled error | Uncaught error

text \<open>The \<^verbatim>\<open>catch\<close> block (lines 66 to 73).\<close>

definition init_catch :: "externals \<Rightarrow> path \<Rightarrow> error \<Rightarrow> world \<Rightarrow> outcome \<times> world" where
  "init_catch E cwd e w =
     (let w1 = w\<lparr>trace := trace w @ [HandleError e]\<rparr>
      in case handleError_reply E e of
           Some code \<Rightarrow> (Exited code, w1)
         | None \<Rightarrow>
             (let configPath = path_resolve cwd ''getatomic.components.json''
              in case existsSync configPath w1 of
                   Ok config_exists w2 \<Rightarrow>
                     (if config_exists then
                        (case unlink configPath w2 of
                           Ok u w3 \<Rightarrow> (Handled e, w3)
                         | Throw e' w3 \<Rightarrow> (Uncaught e', w3)
                         | Exit code w3 \<Rightarrow> (Exited code, w3))
                      else (Handled e, w2))
                 | Throw e' w2 \<Rightarrow> (Uncaught e', w2)
                 | Exit code w2 \<Rightarrow> (Exited code, w2)))"

text \<open>The action of the \<^verbatim>\<open>init\<close> command, run on a file system with an empty trace.\<close>

definition init :: "externals \<Rightarrow> path \<Rightarrow> (path \<rightharpoonup> node) \<Rightarrow> outcome \<times> world" where
  "init E cwd files =
     (case init_try E cwd \<lparr>fs = files, trace = []\<rparr> of
        Ok u w \<Rightarrow> (Done, w)
      | Exit code w \<Rightarrow> (Exited code, w)
      | Throw e w \<Rightarrow> init_catch E cwd e w)"

section \<open>Vocabulary of the properties\<close>

abbreviation config_file :: "path \<Rightarrow> path" where
  "config_file cwd \<equiv> path_resolve cwd ''getatomic.components.json''"

fun world_of :: "'a result \<Rightarrow> world" where
  "world_of (Ok x w) = w"
| "world_of (Throw e w) = w"
| "world_of (Exit code w) = w"

text \<open>Kinds of call in a trace.\<close>

definition is_prompt :: "event \<Rightarrow> bool" where
  "is_prompt e = (case e of Prompt q \<Rightarrow> True | _ \<Rightarrow> False)"

definition is_fetch :: "event \<Rightarrow> bool" where
  "is_fetch e = (case e of GetThemes \<Rightarrow> True | GetInitData t \<Rightarrow> True | _ \<Rightarrow> False)"

definition is_write :: "event \<Rightarrow> bool" where
  "is_write e = (case e of WriteFile p c \<Rightarrow> True | Mkdir p \<Rightarrow> True | _ \<Rightarrow> False)"

definition is_install :: "event \<Rightarrow> bool" where
  "is_install e = (case e of Execa file args cwd io \<Rightarrow> True | _ \<Rightarrow> False)"

definition is_handled_error :: "event \<Rightarrow> bool" where
  "is_handled_error e = (case e of HandleError err \<Rightarrow> True | _ \<Rightarrow> False)"

text \<open>Reading a field of a parsed JSON object.\<close>

definition json_get :: "string \<Rightarrow> json \<Rightarrow> json option" where
  "json_get k v = (case v of JObject ps \<Rightarrow> map_of ps k | JString s \<Rightarrow> None)"

subsection \<open>The pipeline of the specification\<close>







subsection \<open>A small project and a cooperative environment\<close>

text \<open>
  A project directory with a manifest, a remote service with two themes and one
  dependency, an operator who picks the second theme, accepts both defaults and
  confirms, a resolver that places both paths under the project, and a handler that
  returns to the \<^verbatim>\<open>catch\<close> block.
\<close>

definition example_project :: "path \<rightharpoonup> node" where
  "example_project =
     [''/'' \<mapsto> Directory, ''/proj'' \<mapsto> Directory, ''/proj/package.json'' \<mapsto> File ''{}'']"

definition example_externals :: externals where
  "example_externals =
     \<lparr>checkPackageExists_reply = (\<lambda>pkg cwd. pkg = ''react''),
      getThemes_reply =
        Inr [\<lparr>Theme_id = ''t1'', Theme_name = ''Default''\<rparr>,
             \<lparr>Theme_id = ''t2'', Theme_name = ''Dark''\<rparr>],
      operator_theme = Answered 1,
      operator_globalCSS = Answered [],
      operator_components = Answered [],
      operator_proceed = Answered True,
      resolveConfigPaths_reply =
        (\<lambda>cwd config.
           Inr \<lparr>resolved_components = cwd @ ''/components/getatomic'',
                resolved_css = cwd @ ''/'' @ css (theme config)\<rparr>),
      getInitData_reply = (\<lambda>t. Inr \<lparr>initData_css = ''body{}'', dependencies = [''clsx'']\<rparr>),
      getPackageManager_reply = (\<lambda>cwd. ''npm''),
      execa_reply = (\<lambda>file args cwd. None),
      handleError_reply = (\<lambda>e. None)\<rparr>"

text \<open>The content of a file, as \<^verbatim>\<open>fs.readFile\<close> would give it.\<close>

definition readFile :: "(path \<rightharpoonup> node) \<Rightarrow> path \<Rightarrow> string option" where
  "readFile files p = (case files p of Some (File content) \<Rightarrow> Some content | _ \<Rightarrow> None)"

text \<open>
  The configuration that \<^verbatim>\<open>promptForProjectDetails\<close> assembles (lines 110 to 118) when
  the service lists \<open>themes\<close> and the operator picks the \<open>i\<close>-th of them and types
  \<open>typed_css\<close> and \<open>typed_alias\<close>.
\<close>

definition assembled :: "Theme list \<Rightarrow> nat \<Rightarrow> string \<Rightarrow> string \<Rightarrow> RawConfig" where
  "assembled themes i typed_css typed_alias =
     \<lparr>theme = \<lparr>name = Theme_id (themes ! i), css = text_value ''app/globals.css'' typed_css\<rparr>,
      alias' = \<lparr>components = text_value ''@/components/getatomic'' typed_alias\<rparr>\<rparr>"

text \<open>The calls a step has added to the trace of the world it started in.\<close>

definition events_since :: "world \<Rightarrow> 'a result \<Rightarrow> event list" where
  "events_since w r = drop (length (trace w)) (trace (world_of r))"

definition returned :: "'a result \<Rightarrow> bool" where
  "returned r = (case r of Ok x w \<Rightarrow> True | _ \<Rightarrow> False)"

section \<open>Reading back what \<^verbatim>\<open>JSON.stringify\<close> wrote\<close>

lemma hex_value_hex_digit: "n < 16 \<Longrightarrow> hex_value (hex_digit n) = Some n"
proof -
  assume "n < 16"
  then have "n \<in> {0,1,2,3,4,5,6,7,8,9,10,11,12,13,14,15}" by simp arith
  then show ?thesis
    by (auto simp: hex_value_def hex_digit_def)
qed

lemma code_unit_quote:
  assumes "(of_char c :: nat) < 0x20"
  shows "code_unit (CHR ''0'') (CHR ''0'') (hex_digit (of_char c div 16))
           (hex_digit (of_char c mod 16)) = Some c"
proof -
  have zero: "hex_value (CHR ''0'') = Some 0"
    by (simp add: hex_value_def)
  have high: "hex_value (hex_digit (of_char c div 16)) = Some (of_char c div 16)"
    using assms by (intro hex_value_hex_digit) simp
  have low: "hex_value (hex_digit (of_char c mod 16)) = Some (of_char c mod 16)"
    by (intro hex_value_hex_digit) simp
  show ?thesis
    using assms by (simp add: code_unit_def zero high low)
qed

lemma parse_string_body_quote_char:
  "parse_string_body (quote_char c @ s) = cons_char c (parse_string_body s)"
  by (simp add: quote_char_def simple_escape_def code_unit_quote)

lemma parse_string_body_quote:
  "parse_string_body (concat (map quote_char s) @ CHR 0x22 # r) = Some (s, r)"
proof (induction s)
  case Nil
  show ?case by simp
next
  case (Cons c s)
  show ?case
    using Cons.IH
    by (simp add: parse_string_body_quote_char cons_char_def del: parse_string_body.simps(2))
qed

lemma skip_ws_append: "\<forall>c\<in>set ws. is_ws c \<Longrightarrow> skip_ws (ws @ x) = skip_ws x"
  by (simp add: skip_ws_def dropWhile_append2)

lemma skip_ws_Cons: "\<not> is_ws c \<Longrightarrow> skip_ws (c # x) = c # x"
  by (simp add: skip_ws_def)

lemma parse_value_skip: "\<forall>c\<in>set ws. is_ws c \<Longrightarrow> parse_value n (ws @ x) = parse_value n x"
  by (cases n) (simp_all add: skip_ws_append)

lemma parse_members_skip: "\<forall>c\<in>set ws. is_ws c \<Longrightarrow> parse_members n (ws @ x) = parse_members n x"
  by (cases n) (simp_all add: skip_ws_append)

lemma parse_value_QuoteJSONString:
  "parse_value (Suc n) (QuoteJSONString s @ r) = Some (JString s, r)"
  by (simp add: QuoteJSONString_def skip_ws_Cons is_ws_def parse_string_body_quote
      del: parse_string_body.simps)

text \<open>
  Any serialised value, followed by any text, is read back as the value and that text,
  given fuel for its nesting. Members are read up to the brace that closes their object.
\<close>

lemma parse_Serialize:
  "(\<forall>c\<in>set indent. is_ws c) \<longrightarrow>
     (\<forall>n r. fuel_value v \<le> n \<longrightarrow>
        parse_value n (SerializeJSONProperty indent v @ r) = Some (v, r))"
  "(\<forall>c\<in>set indent. is_ws c) \<longrightarrow> ps \<noteq> [] \<longrightarrow>
     (\<forall>n r ws. fuel_members ps \<le> n \<longrightarrow> (\<forall>c\<in>set ws. is_ws c) \<longrightarrow>
        parse_members n (SerializeJSONMembers indent ps @ ws @ CHR ''}'' # r) = Some (ps, r))"
proof (induction indent v and indent ps rule: SerializeJSONProperty_SerializeJSONMembers.induct)
  case (1 indent s)
  show ?case
  proof (intro impI allI)
    fix n r assume "fuel_value (JString s) \<le> n"
    then obtain m where "n = Suc m" by (cases n) auto
    then show "parse_value n (SerializeJSONProperty indent (JString s) @ r) = Some (JString s, r)"
      by (simp add: parse_value_QuoteJSONString del: parse_value.simps)
  qed
next
  case (2 indent)
  show ?case
  proof (intro impI allI)
    fix n r assume "fuel_value (JObject []) \<le> n"
    then obtain m where "n = Suc m" by (cases n) auto
    then show "parse_value n (SerializeJSONProperty indent (JObject []) @ r) = Some (JObject [], r)"
      by (simp add: skip_ws_Cons is_ws_def)
  qed
next
  case (3 indent p ps)
  show ?case
  proof (intro impI allI)
    fix n r
    assume ws: "\<forall>c\<in>set indent. is_ws c" and fuel: "fuel_value (JObject (p # ps)) \<le> n"
    from fuel obtain m where n: "n = Suc m" and m: "fuel_members (p # ps) \<le> m"
      by (cases n) auto
    let ?inner = "indent @ ''  ''"
    have inner: "\<forall>c\<in>set ?inner. is_ws c"
      using ws by (auto simp: is_ws_def)
    have lead: "\<forall>c\<in>set (CHR 0x0A # ?inner). is_ws c"
      using ws by (auto simp: is_ws_def)
    have trail: "\<forall>c\<in>set (CHR 0x0A # indent). is_ws c"
      using ws by (auto simp: is_ws_def)
    obtain k v where p: "p = (k, v)" by (cases p)
    define body where
      "body = SerializeJSONMembers ?inner (p # ps) @ (CHR 0x0A # indent) @ CHR ''}'' # r"
    have members: "parse_members m body = Some (p # ps, r)"
      unfolding body_def using "3.IH" inner m trail by blast
    obtain t where t: "body = CHR 0x22 # t"
      by (simp add: body_def p QuoteJSONString_def)
    have start: "skip_ws ((CHR 0x0A # ?inner) @ body) = CHR 0x22 # t"
      unfolding skip_ws_append [OF lead] by (simp add: t skip_ws_Cons is_ws_def)
    have "parse_value (Suc m) (CHR ''{'' # (CHR 0x0A # ?inner) @ body)
        = map_option (\<lambda>(ps, rest). (JObject ps, rest))
            (parse_members m ((CHR 0x0A # ?inner) @ body))"
      using start by (simp add: skip_ws_Cons is_ws_def del: append.simps)
    also have "\<dots> = Some (JObject (p # ps), r)"
      unfolding parse_members_skip [OF lead] members by simp
    finally show "parse_value n (SerializeJSONProperty indent (JObject (p # ps)) @ r)
        = Some (JObject (p # ps), r)"
      by (simp add: n body_def)
  qed
next
  case (4 indent)
  show ?case by simp
next
  case (5 indent k v ps)
  show ?case
  proof (intro impI allI)
    fix n r ws
    assume indent: "\<forall>c\<in>set indent. is_ws c" and fuel: "fuel_members ((k, v) # ps) \<le> n"
      and ws: "\<forall>c\<in>set ws. is_ws c"
    from fuel obtain m where n: "n = Suc m" and mv: "fuel_value v \<le> m"
      and mp: "fuel_members ps \<le> m"
      by (cases n) auto
    define more where
      "more = (if ps = [] then [] else '','' @ [CHR 0x0A] @ indent @ SerializeJSONMembers indent ps)
                @ ws @ CHR ''}'' # r"
    have space: "\<forall>c\<in>set '' ''. is_ws c"
      by (simp add: is_ws_def)
    have val: "parse_value m ('' '' @ SerializeJSONProperty indent v @ more) = Some (v, more)"
      unfolding parse_value_skip [OF space]
      using "5.IH"(1) indent mv by blast
    have after:
      "(case skip_ws more of
          [] \<Rightarrow> None
        | c3 # r4 \<Rightarrow>
            (if c3 = CHR '','' then
               map_option (\<lambda>(ps, rest). ((k, v) # ps, rest)) (parse_members m r4)
             else if c3 = CHR ''}'' then Some ([(k, v)], r4)
             else None)) = Some ((k, v) # ps, r)"
    proof (cases "ps = []")
      case True
      then have "skip_ws more = CHR ''}'' # r"
        by (simp add: more_def skip_ws_append [OF ws] skip_ws_Cons is_ws_def)
      then show ?thesis using True by simp
    next
      case False
      have sep: "\<forall>c\<in>set (CHR 0x0A # indent). is_ws c"
        using indent by (auto simp: is_ws_def)
      have more: "more = CHR '','' # (CHR 0x0A # indent) @ SerializeJSONMembers indent ps
                          @ ws @ CHR ''}'' # r"
        using False by (simp add: more_def)
      have "parse_members m ((CHR 0x0A # indent) @ SerializeJSONMembers indent ps
                               @ ws @ CHR ''}'' # r) = Some (ps, r)"
        unfolding parse_members_skip [OF sep]
        using "5.IH"(2) False indent mp ws by blast
      then show ?thesis
        unfolding more by (simp add: skip_ws_Cons is_ws_def)
    qed
    have "parse_members (Suc m) (QuoteJSONString k @ '': '' @ SerializeJSONProperty indent v @ more)
        = Some ((k, v) # ps, r)"
      unfolding parse_members.simps
      using val after
      by (simp add: QuoteJSONString_def skip_ws_Cons is_ws_def parse_string_body_quote
          del: parse_string_body.simps)
    then show "parse_members n (SerializeJSONMembers indent ((k, v) # ps) @ ws @ CHR ''}'' # r)
        = Some ((k, v) # ps, r)"
      by (simp add: n more_def)
  qed
qed

lemma fuel_le_length:
  "fuel_value v \<le> length (SerializeJSONProperty indent v)"
  "fuel_members ps \<le> length (SerializeJSONMembers indent ps)"
  by (induction indent v and indent ps rule: SerializeJSONProperty_SerializeJSONMembers.induct)
     (auto simp: QuoteJSONString_def)

lemma JSON_roundtrip: "JSON_parse (JSON_stringify v) = Some v"
proof -
  have "\<forall>n r. fuel_value v \<le> n \<longrightarrow>
      parse_value n (SerializeJSONProperty [] v @ r) = Some (v, r)"
    using parse_Serialize(1) [of "[]" v] by simp
  then have "parse_value (length (SerializeJSONProperty [] v)) (SerializeJSONProperty [] v @ [])
      = Some (v, [])"
    using fuel_le_length(1) [of v "[]"] by blast
  then show ?thesis
    by (simp add: JSON_parse_def JSON_stringify_def skip_ws_def)
qed

section \<open>How the calls change the world\<close>

lemmas prog_defs = bind_def return_def throw_def process_exit_def emit_def
  logger_info_def logger_error_def spinner_start_def spinner_succeed_def spinner_fail_def
  existsSync_def checkPackageExists_def getThemes_def resolveConfigPaths_def getInitData_def
  getPackageManager_def execa_def select_value_def onCancel_def prompts_options_def
  prompts_proceed_def

text \<open>\<^verbatim>\<open>mkdir -p\<close> only adds directories: what exists stays as it is.\<close>

lemma make_directories_keeps:
  "make_directories ds f = Inr f' \<Longrightarrow> f p = Some x \<Longrightarrow> f' p = Some x"
proof (induction ds arbitrary: f)
  case Nil
  then show ?case by simp
next
  case (Cons d ds)
  show ?case
  proof (cases "f d")
    case None
    with Cons.prems have "make_directories ds (f(d \<mapsto> Directory)) = Inr f'" by simp
    moreover from None Cons.prems have "(f(d \<mapsto> Directory)) p = Some x" by auto
    ultimately show ?thesis by (rule Cons.IH)
  next
    case (Some n)
    with Cons.prems show ?thesis by (cases n) (auto intro: Cons.IH)
  qed
qed

lemma mkdir_Ok:
  "mkdir p w = Ok u w' \<Longrightarrow>
     trace w' = trace w @ [Mkdir p] \<and> (\<forall>q x. fs w q = Some x \<longrightarrow> fs w' q = Some x)"
  by (auto simp: mkdir_def Let_def split: sum.splits dest: make_directories_keeps)

lemma writeFile_Ok:
  "writeFile p c w = Ok u w' \<Longrightarrow>
     trace w' = trace w @ [WriteFile p c] \<and> fs w' = (fs w)(p \<mapsto> File c)"
  by (auto simp: writeFile_def Let_def split: option.splits node.splits)


lemma promptForProjectDetails_Ok:
  assumes "promptForProjectDetails E cwd w = Ok config w'"
  shows "\<exists>themes i typed_css typed_alias paths.
           getThemes_reply E = Inr themes \<and> operator_theme E = Answered i \<and> i < length themes
         \<and> operator_globalCSS E = Answered typed_css
         \<and> operator_components E = Answered typed_alias
         \<and> operator_proceed E = Answered True
         \<and> resolveConfigPaths_reply E cwd (RawConfig.truncate config) = Inr paths
         \<and> config = \<lparr>theme = \<lparr>name = Theme_id (themes ! i),
                                css = text_value ''app/globals.css'' typed_css\<rparr>,
                      alias' = \<lparr>components = text_value ''@/components/getatomic'' typed_alias\<rparr>,
                      resolvedPaths = paths\<rparr>
         \<and> resolved_components paths \<noteq> [] \<and> resolved_css paths \<noteq> []
         \<and> fs w' = (fs w)(config_file cwd \<mapsto> File (JSON_stringify (config_json (RawConfig.truncate config))))
         \<and> trace w' = trace w @
              [GetThemes, Prompt ''theme'', Prompt ''globalCSS'', Prompt ''components'',
               ResolveConfigPaths cwd (RawConfig.truncate config), Prompt ''proceed'',
               SpinnerStart ''Writing getatomic.components.json...'',
               WriteFile (config_file cwd) (JSON_stringify (config_json (RawConfig.truncate config))),
               SpinnerSucceed ''Writing getatomic.components.json...'']"
  using assms
  apply (simp add: promptForProjectDetails_def prog_defs Let_def
      split: result.splits if_splits sum.splits answer.splits prod.splits)
  apply (auto dest!: writeFile_Ok simp: RawConfig.truncate_def)
  done


text \<open>Every way a call of \<^verbatim>\<open>promptForProjectDetails\<close> can end.\<close>

lemma promptForProjectDetails_cases
  [case_names themes_failed theme_cancelled no_choice css_cancelled alias_cancelled
     resolve_failed unresolved not_confirmed write_failed persisted]:
  obtains
    e where "getThemes_reply E = Inl e"
      and "promptForProjectDetails E cwd w = Throw e (w\<lparr>trace := trace w @ [GetThemes]\<rparr>)"
  | themes where "getThemes_reply E = Inr themes" and "operator_theme E = Cancelled"
      and "promptForProjectDetails E cwd w =
             Throw (Error ''Terminated Atomic UI setup.'')
               (w\<lparr>trace := trace w @ [GetThemes, Prompt ''theme'']\<rparr>)"
  | themes i where "getThemes_reply E = Inr themes" and "operator_theme E = Answered i"
      and "\<not> i < length themes"
      and "promptForProjectDetails E cwd w =
             Throw (TypeError ''Cannot read properties of undefined'')
               (w\<lparr>trace := trace w @ [GetThemes, Prompt ''theme'']\<rparr>)"
  | themes i where "getThemes_reply E = Inr themes" and "operator_theme E = Answered i"
      and "i < length themes" and "operator_globalCSS E = Cancelled"
      and "promptForProjectDetails E cwd w =
             Throw (Error ''Terminated Atomic UI setup.'')
               (w\<lparr>trace := trace w @ [GetThemes, Prompt ''theme'', Prompt ''globalCSS'']\<rparr>)"
  | themes i typed_css where "getThemes_reply E = Inr themes" and "operator_theme E = Answered i"
      and "i < length themes" and "operator_globalCSS E = Answered typed_css"
      and "operator_components E = Cancelled"
      and "promptForProjectDetails E cwd w =
             Throw (Error ''Terminated Atomic UI setup.'')
               (w\<lparr>trace := trace w @
                  [GetThemes, Prompt ''theme'', Prompt ''globalCSS'', Prompt ''components'']\<rparr>)"
  | themes i typed_css typed_alias e where
      "getThemes_reply E = Inr themes" and "operator_theme E = Answered i"
      and "i < length themes" and "operator_globalCSS E = Answered typed_css"
      and "operator_components E = Answered typed_alias"
      and "resolveConfigPaths_reply E cwd (assembled themes i typed_css typed_alias) = Inl e"
      and "promptForProjectDetails E cwd w =
             Throw e
               (w\<lparr>trace := trace w @
                  [GetThemes, Prompt ''theme'', Prompt ''globalCSS'', Prompt ''components'',
                   ResolveConfigPaths cwd (assembled themes i typed_css typed_alias)]\<rparr>)"
  | themes i typed_css typed_alias paths where
      "getThemes_reply E = Inr themes" and "operator_theme E = Answered i"
      and "i < length themes" and "operator_globalCSS E = Answered typed_css"
      and "operator_components E = Answered typed_alias"
      and "resolveConfigPaths_reply E cwd (assembled themes i typed_css typed_alias) = Inr paths"
      and "resolved_components paths = [] \<or> resolved_css paths = []"
      and "promptForProjectDetails E cwd w =
             Throw (Error ''Failed to resolve components alias, please enter a valid alias.'')
               (w\<lparr>trace := trace w @
                  [GetThemes, Prompt ''theme'', Prompt ''globalCSS'', Prompt ''components'',
                   ResolveConfigPaths cwd (assembled themes i typed_css typed_alias)]\<rparr>)"
  | themes i typed_css typed_alias paths where
      "getThemes_reply E = Inr themes" and "operator_theme E = Answered i"
      and "i < length themes" and "operator_globalCSS E = Answered typed_css"
      and "operator_components E = Answered typed_alias"
      and "resolveConfigPaths_reply E cwd (assembled themes i typed_css typed_alias) = Inr paths"
      and "resolved_components paths \<noteq> []" and "resolved_css paths \<noteq> []"
      and "operator_proceed E \<noteq> Answered True"
      and "promptForProjectDetails E cwd w =
             Exit 0
               (w\<lparr>trace := trace w @
                  [GetThemes, Prompt ''theme'', Prompt ''globalCSS'', Prompt ''components'',
                   ResolveConfigPaths cwd (assembled themes i typed_css typed_alias),
                   Prompt ''proceed'']\<rparr>)"
  | themes i typed_css typed_alias paths e where
      "getThemes_reply E = Inr themes" and "operator_theme E = Answered i"
      and "i < length themes" and "operator_globalCSS E = Answered typed_css"
      and "operator_components E = Answered typed_alias"
      and "resolveConfigPaths_reply E cwd (assembled themes i typed_css typed_alias) = Inr paths"
      and "resolved_components paths \<noteq> []" and "resolved_css paths \<noteq> []"
      and "operator_proceed E = Answered True"
      and "promptForProjectDetails E cwd w =
             Throw e
               (w\<lparr>trace := trace w @
                  [GetThemes, Prompt ''theme'', Prompt ''globalCSS'', Prompt ''components'',
                   ResolveConfigPaths cwd (assembled themes i typed_css typed_alias),
                   Prompt ''proceed'', SpinnerStart ''Writing getatomic.components.json...'',
                   WriteFile (config_file cwd)
                     (JSON_stringify (config_json (assembled themes i typed_css typed_alias)))]\<rparr>)"
  | themes i typed_css typed_alias paths w' where
      "getThemes_reply E = Inr themes" and "operator_theme E = Answered i"
      and "i < length themes" and "operator_globalCSS E = Answered typed_css"
      and "operator_components E = Answered typed_alias"
      and "resolveConfigPaths_reply E cwd (assembled themes i typed_css typed_alias) = Inr paths"
      and "resolved_components paths \<noteq> []" and "resolved_css paths \<noteq> []"
      and "operator_proceed E = Answered True"
      and "promptForProjectDetails E cwd w =
             Ok \<lparr>theme = theme (assembled themes i typed_css typed_alias),
                 alias' = alias' (assembled themes i typed_css typed_alias),
                 resolvedPaths = paths\<rparr> w'"
      and "fs w' = (fs w)(config_file cwd \<mapsto>
             File (JSON_stringify (config_json (assembled themes i typed_css typed_alias))))"
      and "trace w' = trace w @
             [GetThemes, Prompt ''theme'', Prompt ''globalCSS'', Prompt ''components'',
              ResolveConfigPaths cwd (assembled themes i typed_css typed_alias),
              Prompt ''proceed'', SpinnerStart ''Writing getatomic.components.json...'',
              WriteFile (config_file cwd)
                (JSON_stringify (config_json (assembled themes i typed_css typed_alias))),
              SpinnerSucceed ''Writing getatomic.components.json...'']"
proof (cases "getThemes_reply E")
  case (Inl e)
  then show thesis
    by (intro that(1) [of e]) (simp_all add: promptForProjectDetails_def prog_defs)
next
  case themes: (Inr themes)
  show thesis
  proof (cases "operator_theme E")
    case Cancelled
    with themes show thesis
      by (intro that(2) [of themes]) (simp_all add: promptForProjectDetails_def prog_defs)
  next
    case theme: (Answered i)
    show thesis
    proof (cases "i < length themes")
      case False
      with themes theme show thesis
        by (intro that(3) [of themes i]) (simp_all add: promptForProjectDetails_def prog_defs)
    next
      case i: True
      show thesis
      proof (cases "operator_globalCSS E")
        case Cancelled
        with themes theme i show thesis
          by (intro that(4) [of themes i]) (simp_all add: promptForProjectDetails_def prog_defs)
      next
        case css: (Answered typed_css)
        show thesis
        proof (cases "operator_components E")
          case Cancelled
          with themes theme i css show thesis
            by (intro that(5) [of themes i typed_css])
               (simp_all add: promptForProjectDetails_def prog_defs)
        next
          case comps: (Answered typed_alias)
          note answers = themes theme i css comps
          show thesis
          proof (cases "resolveConfigPaths_reply E cwd (assembled themes i typed_css typed_alias)")
            case (Inl e)
            with answers show thesis
              by (intro that(6) [of themes i typed_css typed_alias e])
                 (simp_all add: promptForProjectDetails_def prog_defs assembled_def Let_def)
          next
            case paths: (Inr paths)
            show thesis
            proof (cases "resolved_components paths = [] \<or> resolved_css paths = []")
              case True
              with answers paths show thesis
                by (intro that(7) [of themes i typed_css typed_alias paths])
                   (auto simp add: promptForProjectDetails_def prog_defs assembled_def Let_def)
            next
              case nonempty: False
              show thesis
              proof (cases "operator_proceed E = Answered True")
                case False
                with answers paths nonempty show thesis
                  by (intro that(8) [of themes i typed_css typed_alias paths])
                     (auto simp add: promptForProjectDetails_def prog_defs assembled_def Let_def
                        split: answer.splits)
              next
                case proceed: True
                let ?w = "w\<lparr>trace := trace w @
                  [GetThemes, Prompt ''theme'', Prompt ''globalCSS'', Prompt ''components'',
                   ResolveConfigPaths cwd (assembled themes i typed_css typed_alias),
                   Prompt ''proceed'', SpinnerStart ''Writing getatomic.components.json...'']\<rparr>"
                let ?json = "JSON_stringify (config_json (assembled themes i typed_css typed_alias))"
                show thesis
                proof (cases "writeFile (config_file cwd) ?json ?w")
                  case (Ok u w')
                  from writeFile_Ok [OF Ok] Ok answers paths nonempty proceed show thesis
                    by (intro that(10) [where themes = themes and i = i and typed_css = typed_css
                          and typed_alias = typed_alias and paths = paths
                          and w' = "w'\<lparr>trace := trace w' @
                            [SpinnerSucceed ''Writing getatomic.components.json...'']\<rparr>"])
                       (auto simp add: promptForProjectDetails_def prog_defs assembled_def Let_def)
                next
                  case (Throw e w')
                  then have "w' = ?w\<lparr>trace := trace ?w @ [WriteFile (config_file cwd) ?json]\<rparr>"
                    by (auto simp: writeFile_def Let_def split: option.splits node.splits)
                  with Throw answers paths nonempty proceed show thesis
                    by (intro that(9) [of themes i typed_css typed_alias paths e])
                       (auto simp add: promptForProjectDetails_def prog_defs assembled_def Let_def)
                next
                  case (Exit code w')
                  then show thesis
                    by (auto simp: writeFile_def Let_def split: option.splits node.splits)
                qed
              qed
            qed
          qed
        qed
      qed
    qed
  qed
qed

lemmas event_kinds = is_prompt_def is_fetch_def is_write_def is_install_def is_handled_error_def

text \<open>Every way the validation at the head of the \<^verbatim>\<open>try\<close> block can end.\<close>

lemma init_try_cases [case_names no_target no_manifest no_framework validated]:
  obtains
    "fs w cwd = None"
    and "init_try E cwd w =
           Exit 1 (w\<lparr>trace := trace w @
             [LoggerInfo ''Initializing Atomic UI'', ExistsSync cwd,
              LoggerError (''The path '' @ cwd @ '' does not exist. Please try again.'')]\<rparr>)"
  | "fs w cwd \<noteq> None" and "fs w (path_resolve cwd ''package.json'') = None"
    and "init_try E cwd w =
           Exit 1 (w\<lparr>trace := trace w @
             [LoggerInfo ''Initializing Atomic UI'', ExistsSync cwd,
              SpinnerStart ''Validating project...'',
              ExistsSync (path_resolve cwd ''package.json''),
              SpinnerFail ''Validating project...'',
              LoggerError (''No package.json found in '' @ cwd @ ''. Please run ''
                @ [CHR 0x22] @ ''npm init'' @ [CHR 0x22] @ '' first.'')]\<rparr>)"
  | "fs w cwd \<noteq> None" and "fs w (path_resolve cwd ''package.json'') \<noteq> None"
    and "\<not> checkPackageExists_reply E ''react'' cwd"
    and "\<not> checkPackageExists_reply E ''next'' cwd"
    and "init_try E cwd w =
           Exit 1 (w\<lparr>trace := trace w @
             [LoggerInfo ''Initializing Atomic UI'', ExistsSync cwd,
              SpinnerStart ''Validating project...'',
              ExistsSync (path_resolve cwd ''package.json''),
              CheckPackageExists ''react'' cwd, CheckPackageExists ''next'' cwd,
              SpinnerFail ''Validating project...'',
              LoggerError ''Missing required dependencies. Please install React or Next first.'']\<rparr>)"
  | checks where
      "fs w cwd \<noteq> None" and "fs w (path_resolve cwd ''package.json'') \<noteq> None"
    and "checkPackageExists_reply E ''react'' cwd \<or> checkPackageExists_reply E ''next'' cwd"
    and "checks = CheckPackageExists ''react'' cwd #
           (if checkPackageExists_reply E ''react'' cwd then []
            else [CheckPackageExists ''next'' cwd])"
    and "init_try E cwd w =
           (case promptForProjectDetails E cwd
                   (w\<lparr>trace := trace w @
                      [LoggerInfo ''Initializing Atomic UI'', ExistsSync cwd,
                       SpinnerStart ''Validating project...'',
                       ExistsSync (path_resolve cwd ''package.json'')] @ checks @
                      [SpinnerSucceed ''Validating project...'']\<rparr>) of
              Ok projectConfig w' \<Rightarrow>
                runInit E cwd projectConfig
                  (w'\<lparr>trace := trace w' @
                     [LoggerInfo ''Project configuration saved to getatomic.components.json'']\<rparr>)
            | Throw e w' \<Rightarrow> Throw e w'
            | Exit code w' \<Rightarrow> Exit code w')"
proof (cases "fs w cwd = None")
  case True
  then show thesis
    by (intro that(1)) (simp_all add: init_try_def prog_defs)
next
  case target: False
  show thesis
  proof (cases "fs w (path_resolve cwd ''package.json'') = None")
    case True
    with target show thesis
      by (intro that(2)) (simp_all add: init_try_def prog_defs)
  next
    case manifest: False
    show thesis
    proof (cases "checkPackageExists_reply E ''react'' cwd \<or> checkPackageExists_reply E ''next'' cwd")
      case False
      with target manifest show thesis
        by (intro that(3)) (simp_all add: init_try_def prog_defs)
    next
      case True
      with target manifest show thesis
        by (intro that(4) [OF _ _ _ refl])
           (auto simp add: init_try_def prog_defs split: result.splits)
    qed
  qed
qed

text \<open>Every way the \<^verbatim>\<open>catch\<close> block can end.\<close>

lemma init_catch_cases [case_names handler_exits nothing_to_clean cleaned cleanup_failed]:
  obtains
    code where "handleError_reply E e = Some code"
      and "init_catch E cwd e w = (Exited code, w\<lparr>trace := trace w @ [HandleError e]\<rparr>)"
  | "handleError_reply E e = None" and "fs w (config_file cwd) = None"
      and "init_catch E cwd e w =
             (Handled e, w\<lparr>trace := trace w @ [HandleError e, ExistsSync (config_file cwd)]\<rparr>)"
  | content where "handleError_reply E e = None"
      and "fs w (config_file cwd) = Some (File content)"
      and "init_catch E cwd e w =
             (Handled e,
              w\<lparr>fs := (fs w)(config_file cwd := None),
                trace := trace w @
                  [HandleError e, ExistsSync (config_file cwd), Unlink (config_file cwd)]\<rparr>)"
  | "handleError_reply E e = None" and "fs w (config_file cwd) = Some Directory"
      and "init_catch E cwd e w =
             (Uncaught (ErrnoException ''EISDIR'' (config_file cwd)),
              w\<lparr>trace := trace w @
                  [HandleError e, ExistsSync (config_file cwd), Unlink (config_file cwd)]\<rparr>)"
proof (cases "handleError_reply E e")
  case (Some code)
  then show thesis
    by (intro that(1) [of code]) (simp_all add: init_catch_def)
next
  case handler: None
  show thesis
  proof (cases "fs w (config_file cwd)")
    case None
    with handler show thesis
      by (intro that(2)) (simp_all add: init_catch_def existsSync_def Let_def)
  next
    case (Some n)
    show thesis
    proof (cases n)
      case (File content)
      with handler Some show thesis
        by (intro that(3) [of content])
           (simp_all add: init_catch_def existsSync_def unlink_def Let_def)
    next
      case Directory
      with handler Some show thesis
        by (intro that(4)) (simp_all add: init_catch_def existsSync_def unlink_def Let_def)
    qed
  qed
qed

lemma init_catch_not_Done: "fst (init_catch E cwd e w) \<noteq> Done"
  by (cases rule: init_catch_cases [where E = E and e = e and w = w and cwd = cwd]) simp_all

lemma init_catch_fs:
  "fs (snd (init_catch E cwd e w)) = fs w
   \<or> fs (snd (init_catch E cwd e w)) = (fs w)(config_file cwd := None)"
  by (cases rule: init_catch_cases [where E = E and e = e and w = w and cwd = cwd]) simp_all

lemma init_catch_handled: "HandleError e \<in> set (trace (snd (init_catch E cwd e w)))"
  by (cases rule: init_catch_cases [where E = E and e = e and w = w and cwd = cwd]) simp_all

lemma init_catch_list_ex:
  assumes "\<not> P (HandleError e)" and "\<not> P (ExistsSync (config_file cwd))"
    and "\<not> P (Unlink (config_file cwd))"
  shows "list_ex P (trace (snd (init_catch E cwd e w))) = list_ex P (trace w)"
  using assms by (cases rule: init_catch_cases [where E = E and e = e and w = w and cwd = cwd]) simp_all

lemma init_catch_mem:
  assumes "ev \<noteq> HandleError e" and "ev \<noteq> ExistsSync (config_file cwd)"
    and "ev \<noteq> Unlink (config_file cwd)"
  shows "ev \<in> set (trace (snd (init_catch E cwd e w))) \<longleftrightarrow> ev \<in> set (trace w)"
  using assms by (cases rule: init_catch_cases [where E = E and e = e and w = w and cwd = cwd]) simp_all

lemma mkdir_Throw:
  "mkdir p w = Throw e w' \<Longrightarrow> w' = w\<lparr>trace := trace w @ [Mkdir p]\<rparr>"
  by (auto simp: mkdir_def Let_def split: sum.splits)

lemma mkdir_not_Exit: "mkdir p w \<noteq> Exit code w'"
  by (auto simp: mkdir_def Let_def split: sum.splits)

lemma writeFile_Throw:
  "writeFile p c w = Throw e w' \<Longrightarrow> w' = w\<lparr>trace := trace w @ [WriteFile p c]\<rparr>"
  by (auto simp: writeFile_def Let_def split: option.splits node.splits)

lemma writeFile_not_Exit: "writeFile p c w \<noteq> Exit code w'"
  by (auto simp: writeFile_def Let_def split: option.splits node.splits)

text \<open>
  The pattern \<^verbatim>\<open>if (!existsSync(p)) await fs.mkdir(q, { recursive: true })\<close>, followed by
  the rest of the function: either the directory cannot be made, or the rest runs in a
  world where at most that call was added and nothing that existed has changed.
\<close>

lemma ensure_directory_cases [case_names failed ensured]:
  obtains
    e where "fs w p = None"
      and "bind (existsSync p) (\<lambda>found. bind (if \<not> found then mkdir q else return ()) k) w
             = Throw e (w\<lparr>trace := trace w @ [ExistsSync p, Mkdir q]\<rparr>)"
  | made w1 where
      "bind (existsSync p) (\<lambda>found. bind (if \<not> found then mkdir q else return ()) k) w = k () w1"
      and "trace w1 = trace w @ ExistsSync p # made"
      and "made = [] \<or> made = [Mkdir q]"
      and "\<And>x y. fs w x = Some y \<Longrightarrow> fs w1 x = Some y"
proof (cases "fs w p = None")
  case False
  then show thesis
    by (intro that(2) [of "w\<lparr>trace := trace w @ [ExistsSync p]\<rparr>" "[]"])
       (simp_all add: bind_def existsSync_def return_def)
next
  case missing: True
  let ?w = "w\<lparr>trace := trace w @ [ExistsSync p]\<rparr>"
  show thesis
  proof (cases "mkdir q ?w")
    case (Ok u w1)
    from mkdir_Ok [OF Ok] missing Ok show thesis
      by (intro that(2) [of w1 "[Mkdir q]"]) (simp_all add: bind_def existsSync_def)
  next
    case (Throw e w1)
    from mkdir_Throw [OF Throw] missing Throw show thesis
      by (intro that(1) [of e]) (simp_all add: bind_def existsSync_def)
  next
    case (Exit code w1)
    then show thesis by (simp add: mkdir_not_Exit)
  qed
qed

lemma bind_emit: "bind (emit ev) f w = f () (w\<lparr>trace := trace w @ [ev]\<rparr>)"
  by (simp add: bind_def emit_def)

lemma bind_getInitData_Inl:
  "getInitData_reply E n = Inl e \<Longrightarrow>
     bind (getInitData E n) k w = Throw e (w\<lparr>trace := trace w @ [GetInitData n]\<rparr>)"
  by (simp add: prog_defs)

lemma bind_getInitData_Inr:
  "getInitData_reply E n = Inr d \<Longrightarrow>
     bind (getInitData E n) k w = k d (w\<lparr>trace := trace w @ [GetInitData n]\<rparr>)"
  by (simp add: prog_defs)

text \<open>Every way a call of \<^verbatim>\<open>runInit\<close> can end.\<close>

lemma runInit_cases
  [case_names components_failed fetch_failed stylesheet_dir_failed stylesheet_failed
     no_dependencies install_failed installed]:
  fixes E cwd config w
  defines "cpath \<equiv> resolved_components (resolvedPaths config)"
    and "spath \<equiv> resolved_css (resolvedPaths config)"
    and "pm \<equiv> getPackageManager_reply E cwd"
  obtains
    e where "fs w cpath = None"
      and "runInit E cwd config w =
             Throw e (w\<lparr>trace := trace w @
               [SpinnerStart ''Initializing project...'', ExistsSync cpath, Mkdir cpath]\<rparr>)"
  | e made w' where "getInitData_reply E (name (theme config)) = Inl e"
      and "runInit E cwd config w = Throw e w'"
      and "trace w' = trace w @ [SpinnerStart ''Initializing project...'', ExistsSync cpath]
             @ made @ [GetInitData (name (theme config))]"
      and "made = [] \<or> made = [Mkdir cpath]"
      and "\<And>x y. fs w x = Some y \<Longrightarrow> fs w' x = Some y"
  | e made d w' where "getInitData_reply E (name (theme config)) = Inr d"
      and "runInit E cwd config w = Throw e w'"
      and "trace w' = trace w @ [SpinnerStart ''Initializing project...'', ExistsSync cpath]
             @ made @ [GetInitData (name (theme config)), ExistsSync spath, Mkdir (dirname spath)]"
      and "made = [] \<or> made = [Mkdir cpath]"
      and "\<And>x y. fs w x = Some y \<Longrightarrow> fs w' x = Some y"
  | e made made' d w' where "getInitData_reply E (name (theme config)) = Inr d"
      and "runInit E cwd config w = Throw e w'"
      and "trace w' = trace w @ [SpinnerStart ''Initializing project...'', ExistsSync cpath]
             @ made @ [GetInitData (name (theme config)), ExistsSync spath]
             @ made' @ [WriteFile spath (initData_css d)]"
      and "made = [] \<or> made = [Mkdir cpath]"
      and "made' = [] \<or> made' = [Mkdir (dirname spath)]"
      and "\<And>x y. fs w x = Some y \<Longrightarrow> fs w' x = Some y"
  | made made' d w' where "getInitData_reply E (name (theme config)) = Inr d"
      and "dependencies d = []"
      and "runInit E cwd config w = Ok () w'"
      and "trace w' = trace w @ [SpinnerStart ''Initializing project...'', ExistsSync cpath]
             @ made @ [GetInitData (name (theme config)), ExistsSync spath]
             @ made' @ [WriteFile spath (initData_css d), SpinnerSucceed ''Initializing project...'',
                        LoggerInfo ''No dependencies to install.'']"
      and "made = [] \<or> made = [Mkdir cpath]"
      and "made' = [] \<or> made' = [Mkdir (dirname spath)]"
      and "fs w' spath = Some (File (initData_css d))"
      and "\<And>x y. x \<noteq> spath \<Longrightarrow> fs w x = Some y \<Longrightarrow> fs w' x = Some y"
  | e made made' d w' where "getInitData_reply E (name (theme config)) = Inr d"
      and "dependencies d \<noteq> []"
      and "execa_reply E pm ((if pm = ''npm'' then ''install'' else ''add'') # dependencies d) cwd
             = Some e"
      and "runInit E cwd config w = Throw e w'"
      and "trace w' = trace w @ [SpinnerStart ''Initializing project...'', ExistsSync cpath]
             @ made @ [GetInitData (name (theme config)), ExistsSync spath]
             @ made' @ [WriteFile spath (initData_css d), SpinnerSucceed ''Initializing project...'',
                        SpinnerStart [], LoggerInfo ''Installing dependencies...'',
                        GetPackageManager cwd,
                        Execa pm ((if pm = ''npm'' then ''install'' else ''add'') # dependencies d)
                          cwd Inherit]"
      and "made = [] \<or> made = [Mkdir cpath]"
      and "made' = [] \<or> made' = [Mkdir (dirname spath)]"
      and "fs w' spath = Some (File (initData_css d))"
      and "\<And>x y. x \<noteq> spath \<Longrightarrow> fs w x = Some y \<Longrightarrow> fs w' x = Some y"
  | made made' d w' where "getInitData_reply E (name (theme config)) = Inr d"
      and "dependencies d \<noteq> []"
      and "execa_reply E pm ((if pm = ''npm'' then ''install'' else ''add'') # dependencies d) cwd
             = None"
      and "runInit E cwd config w = Ok () w'"
      and "trace w' = trace w @ [SpinnerStart ''Initializing project...'', ExistsSync cpath]
             @ made @ [GetInitData (name (theme config)), ExistsSync spath]
             @ made' @ [WriteFile spath (initData_css d), SpinnerSucceed ''Initializing project...'',
                        SpinnerStart [], LoggerInfo ''Installing dependencies...'',
                        GetPackageManager cwd,
                        Execa pm ((if pm = ''npm'' then ''install'' else ''add'') # dependencies d)
                          cwd Inherit,
                        SpinnerSucceed []]"
      and "made = [] \<or> made = [Mkdir cpath]"
      and "made' = [] \<or> made' = [Mkdir (dirname spath)]"
      and "fs w' spath = Some (File (initData_css d))"
      and "\<And>x y. x \<noteq> spath \<Longrightarrow> fs w x = Some y \<Longrightarrow> fs w' x = Some y"
proof -
  define install :: "InitData \<Rightarrow> unit prog" where
    "install = (\<lambda>initData.
       if dependencies initData = [] then logger_info ''No dependencies to install.''
       else
         bind (spinner_start []) (\<lambda>_.
         bind (logger_info ''Installing dependencies...'') (\<lambda>_.
         bind (getPackageManager E cwd) (\<lambda>packageManager.
         bind (execa E packageManager
                 ((if packageManager = ''npm'' then ''install'' else ''add'') # dependencies initData)
                 cwd Inherit) (\<lambda>_.
         spinner_succeed [])))))"
  define store where
    "store = (\<lambda>initData (_::unit).
       bind (writeFile spath (initData_css initData)) (\<lambda>_.
       bind (spinner_succeed ''Initializing project...'') (\<lambda>_. install initData)))"
  define fetch where
    "fetch = (\<lambda>_::unit.
       bind (getInitData E (name (theme config))) (\<lambda>initData.
       bind (existsSync spath) (\<lambda>css_exists.
       bind (if \<not> css_exists then mkdir (dirname spath) else return ()) (store initData))))"
  let ?w0 = "w\<lparr>trace := trace w @ [SpinnerStart ''Initializing project...'']\<rparr>"
  have start: "runInit E cwd config w =
      bind (existsSync cpath) (\<lambda>found. bind (if \<not> found then mkdir cpath else return ()) fetch) ?w0"
    unfolding runInit_def fetch_def store_def install_def cpath_def spath_def spinner_start_def
    by (simp only: bind_emit)
  show thesis
  proof (cases rule: ensure_directory_cases [where w = ?w0 and p = cpath and q = cpath and k = fetch])
    case (failed e)
    then show thesis
      by (intro that(1) [of e]) (simp_all add: start)
  next
    case first: (ensured made w1)
    let ?w2 = "w1\<lparr>trace := trace w1 @ [GetInitData (name (theme config))]\<rparr>"
    show thesis
    proof (cases "getInitData_reply E (name (theme config))")
      case (Inl e)
      with first show thesis
        by (intro that(2) [where e = e and made = made and w' = ?w2])
           (simp_all add: start fetch_def bind_getInitData_Inl)
    next
      case payload: (Inr d)
      have fetched: "runInit E cwd config w =
          bind (existsSync spath)
            (\<lambda>found. bind (if \<not> found then mkdir (dirname spath) else return ()) (store d)) ?w2"
        using first(1) payload by (simp add: start fetch_def bind_getInitData_Inr)
      show thesis
      proof (cases rule: ensure_directory_cases
          [where w = ?w2 and p = spath and q = "dirname spath" and k = "store d"])
        case (failed e)
        with first payload show thesis
          by (intro that(3) [where e = e and made = made and d = d
              and w' = "?w2\<lparr>trace := trace ?w2 @ [ExistsSync spath, Mkdir (dirname spath)]\<rparr>"]) (simp_all add: fetched)
      next
        case second: (ensured made' w3)
        have keeps: "\<And>x y. fs w x = Some y \<Longrightarrow> fs w3 x = Some y"
          using first(4) second(4) by simp
        have trace3: "trace w3 = trace w @ [SpinnerStart ''Initializing project...'', ExistsSync cpath]
             @ made @ [GetInitData (name (theme config)), ExistsSync spath] @ made'"
          using first(2) second(2) by simp
        have written: "runInit E cwd config w =
            bind (writeFile spath (initData_css d)) (\<lambda>_.
              bind (spinner_succeed ''Initializing project...'') (\<lambda>_. install d)) w3"
          using second(1) by (simp add: fetched store_def)
        show thesis
        proof (cases "writeFile spath (initData_css d) w3")
          case (Throw e w4)
          from writeFile_Throw [OF Throw] Throw payload first(3) second(3) keeps trace3
          show thesis
            by (intro that(4) [where e = e and made = made and made' = made' and d = d and w' = w4]) (simp_all add: written bind_def)
        next
          case (Exit code w4)
          then show thesis by (simp add: writeFile_not_Exit)
        next
          case (Ok u w4)
          from writeFile_Ok [OF Ok]
          have trace4: "trace w4 = trace w3 @ [WriteFile spath (initData_css d)]"
            and fs4: "fs w4 = (fs w3)(spath \<mapsto> File (initData_css d))"
            by simp_all
          have keeps4: "\<And>x y. x \<noteq> spath \<Longrightarrow> fs w x = Some y \<Longrightarrow> fs w4 x = Some y"
            using keeps fs4 by simp
          have css4: "fs w4 spath = Some (File (initData_css d))"
            using fs4 by simp
          have rest: "runInit E cwd config w =
              install d (w4\<lparr>trace := trace w4 @ [SpinnerSucceed ''Initializing project...'']\<rparr>)"
            using Ok by (simp add: written bind_def spinner_succeed_def emit_def)
          show thesis
          proof (cases "dependencies d = []")
            case True
            with payload first(3) second(3) trace3 trace4 keeps4 css4 show thesis
              by (intro that(5) [where made = made and made' = made' and d = d
                  and w' = "w4\<lparr>trace := trace w4 @
                    [SpinnerSucceed ''Initializing project...'',
                     LoggerInfo ''No dependencies to install.'']\<rparr>"])
                 (simp_all add: rest install_def logger_info_def emit_def)
          next
            case deps: False
            show thesis
            proof (cases "execa_reply E pm
                ((if pm = ''npm'' then ''install'' else ''add'') # dependencies d) cwd")
              case None
              with deps payload first(3) second(3) trace3 trace4 keeps4 css4 show thesis
                by (intro that(7) [where made = made and made' = made' and d = d
                    and w' = "w4\<lparr>trace := trace w4 @
                      [SpinnerSucceed ''Initializing project...'', SpinnerStart [],
                       LoggerInfo ''Installing dependencies...'', GetPackageManager cwd,
                       Execa pm ((if pm = ''npm'' then ''install'' else ''add'') # dependencies d)
                         cwd Inherit,
                       SpinnerSucceed []]\<rparr>"])
                   (simp_all add: rest install_def prog_defs pm_def)
            next
              case (Some e)
              with deps payload first(3) second(3) trace3 trace4 keeps4 css4 show thesis
                by (intro that(6) [where e = e and made = made and made' = made' and d = d
                    and w' = "w4\<lparr>trace := trace w4 @
                      [SpinnerSucceed ''Initializing project...'', SpinnerStart [],
                       LoggerInfo ''Installing dependencies...'', GetPackageManager cwd,
                       Execa pm ((if pm = ''npm'' then ''install'' else ''add'') # dependencies d)
                         cwd Inherit]\<rparr>"])
                   (simp_all add: rest install_def prog_defs pm_def)
            qed
          qed
        qed
      qed
    qed
  qed
qed

lemma runInit_trace_extends:
  "\<exists>new. trace (world_of (runInit E cwd config w)) = trace w @ new
     \<and> (\<forall>c r. ResolveConfigPaths c r \<notin> set new)"
  by (cases rule: runInit_cases [where E = E and cwd = cwd and config = config and w = w]) auto

lemma init_catch_trace_extends:
  "\<exists>new. trace (snd (init_catch E cwd e w)) = trace w @ new
     \<and> (\<forall>c r. ResolveConfigPaths c r \<notin> set new)"
  by (cases rule: init_catch_cases [where E = E and e = e and w = w and cwd = cwd]) auto

lemma init_catch_fs_record:
  "fs (snd (init_catch E cwd e \<lparr>fs = files, trace = tr\<rparr>)) = files
   \<or> fs (snd (init_catch E cwd e \<lparr>fs = files, trace = tr\<rparr>)) = files(config_file cwd := None)"
  using init_catch_fs [where E = E and cwd = cwd and e = e and w = "\<lparr>fs = files, trace = tr\<rparr>"]
  by simp

text \<open>
  What the action does with the result of its \<^verbatim>\<open>try\<close> block: the calls that follow a
  step that returned are those of the next step and of the \<^verbatim>\<open>catch\<close> block.
\<close>

lemma after_persisted:
  "\<exists>new. trace (snd (case runInit E cwd config w of
              Ok u w' \<Rightarrow> (Done, w')
            | Throw e w' \<Rightarrow> init_catch E cwd e w'
            | Exit code w' \<Rightarrow> (Exited code, w'))) = trace w @ new
     \<and> (\<forall>c r. ResolveConfigPaths c r \<notin> set new)"
proof -
  obtain new where new: "trace (world_of (runInit E cwd config w)) = trace w @ new"
    "\<forall>c r. ResolveConfigPaths c r \<notin> set new"
    using runInit_trace_extends by blast
  show ?thesis
  proof (cases "runInit E cwd config w")
    case (Throw e w')
    obtain more where "trace (snd (init_catch E cwd e w')) = trace w' @ more"
      "\<forall>c r. ResolveConfigPaths c r \<notin> set more"
      using init_catch_trace_extends by blast
    with new Throw show ?thesis
      by (intro exI [of _ "new @ more"]) simp
  qed (use new in auto)
qed

lemma promptForProjectDetails_trace_extends:
  "\<exists>new. trace (world_of (promptForProjectDetails E cwd w)) = trace w @ new"
  by (cases rule: promptForProjectDetails_cases [where E = E and cwd = cwd and w = w]) auto

text \<open>Calls are only ever added: whatever the validation logged is in the final trace.\<close>

lemma init_after_validation:
  assumes "init_try E cwd \<lparr>fs = files, trace = []\<rparr> =
      (case promptForProjectDetails E cwd w of
         Ok projectConfig w' \<Rightarrow>
           runInit E cwd projectConfig
             (w'\<lparr>trace := trace w' @
                [LoggerInfo ''Project configuration saved to getatomic.components.json'']\<rparr>)
       | Throw e w' \<Rightarrow> Throw e w'
       | Exit code w' \<Rightarrow> Exit code w')"
  shows "\<exists>new. trace (snd (init E cwd files)) = trace w @ new"
proof -
  obtain asked where asked: "trace (world_of (promptForProjectDetails E cwd w)) = trace w @ asked"
    using promptForProjectDetails_trace_extends by blast
  show ?thesis
  proof (cases "promptForProjectDetails E cwd w")
    case (Ok config w')
    let ?w' = "w'\<lparr>trace := trace w' @
        [LoggerInfo ''Project configuration saved to getatomic.components.json'']\<rparr>"
    obtain new where "trace (snd (init E cwd files)) = trace ?w' @ new"
      using after_persisted [where E = E and cwd = cwd and config = config and w = ?w']
        assms Ok by (auto simp: init_def)
    with asked Ok show ?thesis by simp
  next
    case (Throw e w')
    obtain new where "trace (snd (init_catch E cwd e w')) = trace w' @ new"
      using init_catch_trace_extends by blast
    with asked Throw assms show ?thesis by (simp add: init_def)
  next
    case (Exit code w')
    with asked assms show ?thesis by (simp add: init_def)
  qed
qed

section \<open>The steps of a run\<close>









section \<open>The properties\<close>

subsection \<open>C1: what a successful run leaves on disk\<close>




subsection \<open>C2: cancelling a prompt\<close>

text \<open>
  C2, as the specification states it: whichever prompt the operator cancels (theme,
  stylesheet path, import alias or the final confirmation), the whole flow aborts with a
  terminal error and no configuration file exists on disk afterwards.

  This fails for the final confirmation. The first \<^verbatim>\<open>prompts\<close> call has an
  \<^verbatim>\<open>onCancel\<close> that throws; the confirmation has none, so cancelling it leaves
  \<^verbatim>\<open>proceed\<close> undefined and the guard \<^verbatim>\<open>if (!proceed) process.exit(0)\<close> ends the
  process with code 0. No error reaches the handler, and a configuration file that was
  already in the project stays where it is.
\<close>

theorem cancelled_confirmation_counterexample:
  "operator_proceed (example_externals\<lparr>operator_proceed := Cancelled\<rparr>) = Cancelled
   \<and> Prompt ''proceed''
       \<in> set (trace (snd (init (example_externals\<lparr>operator_proceed := Cancelled\<rparr>) ''/proj''
                           (example_project(config_file ''/proj'' \<mapsto> File ''old'')))))
   \<and> fst (init (example_externals\<lparr>operator_proceed := Cancelled\<rparr>) ''/proj''
            (example_project(config_file ''/proj'' \<mapsto> File ''old''))) = Exited 0
   \<and> \<not> list_ex is_handled_error
        (trace (snd (init (example_externals\<lparr>operator_proceed := Cancelled\<rparr>) ''/proj''
                       (example_project(config_file ''/proj'' \<mapsto> File ''old'')))))
   \<and> readFile
        (fs (snd (init (example_externals\<lparr>operator_proceed := Cancelled\<rparr>) ''/proj''
                    (example_project(config_file ''/proj'' \<mapsto> File ''old'')))))
        (config_file ''/proj'') = Some ''old''"
  by code_simp

text \<open>
  C2, amended: if the operator cancels the theme, stylesheet-path or alias prompt, the
  flow throws \<^verbatim>\<open>Terminated Atomic UI setup.\<close> to the top-level handler and does not succeed;
  if the operator cancels the final confirmation, the process exits with code 0 and no
  error is handled. In all four cases the run writes no file and makes no directory: the
  file system is left as it was, except that after a cancelled detail prompt the
  handler's cleanup may delete a configuration file that was already there.
\<close>

theorem cancelled_prompt:
  assumes run: "init E cwd files = (out, w)"
    and cancelled:
      "(Prompt ''theme'' \<in> set (trace w) \<and> operator_theme E = Cancelled)
       \<or> (Prompt ''globalCSS'' \<in> set (trace w) \<and> operator_globalCSS E = Cancelled)
       \<or> (Prompt ''components'' \<in> set (trace w) \<and> operator_components E = Cancelled)
       \<or> (Prompt ''proceed'' \<in> set (trace w) \<and> operator_proceed E = Cancelled)"
  shows "(if Prompt ''proceed'' \<in> set (trace w)
          then out = Exited 0 \<and> \<not> list_ex is_handled_error (trace w) \<and> fs w = files
          else HandleError (Error ''Terminated Atomic UI setup.'') \<in> set (trace w)
             \<and> out \<noteq> Done
             \<and> (fs w = files \<or> fs w = files(config_file cwd := None)))
       \<and> \<not> list_ex is_write (trace w)"
proof -
  from run have out: "out = fst (init E cwd files)" and w: "w = snd (init E cwd files)"
    by simp_all
  note catch = init_catch_mem init_catch_handled init_catch_not_Done init_catch_list_ex
    init_catch_fs_record
  show ?thesis
  proof (cases rule: init_try_cases [where E = E and cwd = cwd and w = "\<lparr>fs = files, trace = []\<rparr>"])
    case no_target
    with cancelled show ?thesis unfolding out w by (simp add: init_def)
  next
    case no_manifest
    with cancelled show ?thesis unfolding out w by (simp add: init_def)
  next
    case no_framework
    with cancelled show ?thesis unfolding out w by (simp add: init_def)
  next
    case (validated checks)
    have checks: "checks = [CheckPackageExists ''react'' cwd]
        \<or> checks = [CheckPackageExists ''react'' cwd, CheckPackageExists ''next'' cwd]"
      using validated(4) by simp
    note tried = validated(5)
    let ?w = "\<lparr>fs = files, trace = []\<rparr>\<lparr>trace := trace \<lparr>fs = files, trace = []\<rparr> @
                [LoggerInfo ''Initializing Atomic UI'', ExistsSync cwd,
                 SpinnerStart ''Validating project...'',
                 ExistsSync (path_resolve cwd ''package.json'')] @ checks @
                [SpinnerSucceed ''Validating project...'']\<rparr>"
    show ?thesis
    proof (cases rule: promptForProjectDetails_cases [where E = E and cwd = cwd and w = ?w])
      case write_failed
      with cancelled show ?thesis by simp
    next
      case persisted
      with cancelled show ?thesis by simp
    qed (use cancelled checks in
          \<open>auto simp: out w init_def tried catch event_kinds\<close>)
  qed
qed

theorem cancelled_prompt_witness:
  "Prompt ''proceed''
     \<notin> set (trace (snd (init (example_externals\<lparr>operator_components := Cancelled\<rparr>) ''/proj''
                          example_project)))
   \<and> HandleError (Error ''Terminated Atomic UI setup.'')
       \<in> set (trace (snd (init (example_externals\<lparr>operator_components := Cancelled\<rparr>) ''/proj''
                           example_project)))
   \<and> fst (init (example_externals\<lparr>operator_components := Cancelled\<rparr>) ''/proj'' example_project)
       \<noteq> Done
   \<and> (fs (snd (init (example_externals\<lparr>operator_components := Cancelled\<rparr>) ''/proj''
                  example_project)) = example_project
       \<or> fs (snd (init (example_externals\<lparr>operator_components := Cancelled\<rparr>) ''/proj''
                     example_project)) = example_project(config_file ''/proj'' := None))
   \<and> \<not> list_ex is_write
        (trace (snd (init (example_externals\<lparr>operator_components := Cancelled\<rparr>) ''/proj''
                       example_project)))"
proof -
  let ?E = "example_externals\<lparr>operator_components := Cancelled\<rparr>"
  have run: "init ?E ''/proj'' example_project
      = (fst (init ?E ''/proj'' example_project), snd (init ?E ''/proj'' example_project))"
    by simp
  have asked: "Prompt ''components'' \<in> set (trace (snd (init ?E ''/proj'' example_project)))"
    by code_simp
  have not_confirming: "Prompt ''proceed'' \<notin> set (trace (snd (init ?E ''/proj'' example_project)))"
    by code_simp
  have cancelled:
    "(Prompt ''theme'' \<in> set (trace (snd (init ?E ''/proj'' example_project)))
        \<and> operator_theme ?E = Cancelled)
     \<or> (Prompt ''globalCSS'' \<in> set (trace (snd (init ?E ''/proj'' example_project)))
        \<and> operator_globalCSS ?E = Cancelled)
     \<or> (Prompt ''components'' \<in> set (trace (snd (init ?E ''/proj'' example_project)))
        \<and> operator_components ?E = Cancelled)
     \<or> (Prompt ''proceed'' \<in> set (trace (snd (init ?E ''/proj'' example_project)))
        \<and> operator_proceed ?E = Cancelled)"
    using asked by simp
  show ?thesis
    using cancelled_prompt [OF run cancelled] not_confirming by simp
qed

subsection \<open>C3: what the error handler cleans up\<close>




subsection \<open>C4: declining the confirmation\<close>

text \<open>
  C4: if the operator declines the final yes/no confirmation, the process exits with
  code 0, which is not an error (the handler is never called), and no configuration file
  is written: the run writes nothing at all, and the file system is as it was.
\<close>

theorem declined_confirmation:
  assumes run: "init E cwd files = (out, w)"
    and asked: "Prompt ''proceed'' \<in> set (trace w)"
    and declined: "operator_proceed E = Answered False"
  shows "out = Exited 0 \<and> fs w = files
       \<and> \<not> list_ex is_write (trace w) \<and> \<not> list_ex is_handled_error (trace w)"
proof -
  from run have out: "out = fst (init E cwd files)" and w: "w = snd (init E cwd files)"
    by simp_all
  note catch = init_catch_mem [where ev = "Prompt ''proceed''"]
  show ?thesis
  proof (cases rule: init_try_cases [where E = E and cwd = cwd and w = "\<lparr>fs = files, trace = []\<rparr>"])
    case no_target
    with asked show ?thesis unfolding out w by (simp add: init_def)
  next
    case no_manifest
    with asked show ?thesis unfolding out w by (simp add: init_def)
  next
    case no_framework
    with asked show ?thesis unfolding out w by (simp add: init_def)
  next
    case (validated checks)
    let ?w = "\<lparr>fs = files, trace = []\<rparr>\<lparr>trace := trace \<lparr>fs = files, trace = []\<rparr> @
                [LoggerInfo ''Initializing Atomic UI'', ExistsSync cwd,
                 SpinnerStart ''Validating project...'',
                 ExistsSync (path_resolve cwd ''package.json'')] @ checks @
                [SpinnerSucceed ''Validating project...'']\<rparr>"
    note facts = validated(4,5) asked declined
    show ?thesis
    proof (cases rule: promptForProjectDetails_cases [where E = E and cwd = cwd and w = ?w])
      case themes_failed
      with facts show ?thesis unfolding out w by (simp add: init_def catch split: if_splits)
    next
      case theme_cancelled
      with facts show ?thesis unfolding out w by (simp add: init_def catch split: if_splits)
    next
      case no_choice
      with facts show ?thesis unfolding out w by (simp add: init_def catch split: if_splits)
    next
      case css_cancelled
      with facts show ?thesis unfolding out w by (simp add: init_def catch split: if_splits)
    next
      case alias_cancelled
      with facts show ?thesis unfolding out w by (simp add: init_def catch split: if_splits)
    next
      case resolve_failed
      with facts show ?thesis unfolding out w by (simp add: init_def catch split: if_splits)
    next
      case unresolved
      with facts show ?thesis unfolding out w by (simp add: init_def catch split: if_splits)
    next
      case not_confirmed
      with facts show ?thesis unfolding out w by (simp add: init_def event_kinds split: if_splits)
    next
      case write_failed
      with declined show ?thesis by simp
    next
      case persisted
      with declined show ?thesis by simp
    qed
  qed
qed

theorem declined_confirmation_witness:
  "fst (init (example_externals\<lparr>operator_proceed := Answered False\<rparr>) ''/proj'' example_project)
     = Exited 0
   \<and> fs (snd (init (example_externals\<lparr>operator_proceed := Answered False\<rparr>) ''/proj''
         example_project)) = example_project
   \<and> \<not> list_ex is_write
        (trace (snd (init (example_externals\<lparr>operator_proceed := Answered False\<rparr>) ''/proj''
           example_project)))
   \<and> \<not> list_ex is_handled_error
        (trace (snd (init (example_externals\<lparr>operator_proceed := Answered False\<rparr>) ''/proj''
           example_project)))"
proof -
  let ?E = "example_externals\<lparr>operator_proceed := Answered False\<rparr>"
  have run: "init ?E ''/proj'' example_project
      = (fst (init ?E ''/proj'' example_project), snd (init ?E ''/proj'' example_project))"
    by simp
  have asked: "Prompt ''proceed'' \<in> set (trace (snd (init ?E ''/proj'' example_project)))"
    by code_simp
  have declined: "operator_proceed ?E = Answered False"
    by simp
  show ?thesis
    using declined_confirmation [OF run asked declined] by simp
qed

subsection \<open>C5: a target directory without a manifest\<close>

text \<open>
  C5: for every target directory that exists but has no \<^verbatim>\<open>package.json\<close> at its
  root, \<^verbatim>\<open>init\<close> exits with code 1, leaves the file system as it was (so it writes no
  configuration file), and makes no prompt, fetch, write or install call.
\<close>

theorem init_without_manifest:
  assumes "files cwd \<noteq> None" and "files (path_resolve cwd ''package.json'') = None"
  shows "fst (init E cwd files) = Exited 1
       \<and> fs (snd (init E cwd files)) = files
       \<and> \<not> list_ex (\<lambda>e. is_prompt e \<or> is_fetch e \<or> is_write e \<or> is_install e)
            (trace (snd (init E cwd files)))"
  using assms by (simp add: init_def init_try_def prog_defs event_kinds)

theorem init_without_manifest_witness:
  "fst (init example_externals ''/proj'' (example_project(''/proj/package.json'' := None))) = Exited 1
   \<and> fs (snd (init example_externals ''/proj'' (example_project(''/proj/package.json'' := None))))
       = example_project(''/proj/package.json'' := None)
   \<and> \<not> list_ex (\<lambda>e. is_prompt e \<or> is_fetch e \<or> is_write e \<or> is_install e)
        (trace (snd (init example_externals ''/proj''
           (example_project(''/proj/package.json'' := None)))))"
proof -
  have target: "(example_project(''/proj/package.json'' := None)) ''/proj'' \<noteq> None"
    by (simp add: example_project_def)
  have manifest:
    "(example_project(''/proj/package.json'' := None)) (path_resolve ''/proj'' ''package.json'') = None"
    by (simp add: path_resolve_def)
  show ?thesis
    by (rule init_without_manifest [OF target manifest])
qed

subsection \<open>C6: an empty resolved path\<close>

text \<open>
  C6: if \<^verbatim>\<open>resolveConfigPaths\<close> was called and answered with an empty string for the
  resolved components path or the resolved stylesheet path, \<^verbatim>\<open>init\<close> fails with the
  error \<^verbatim>\<open>Failed to resolve components alias, please enter a valid alias.\<close>, which
  reaches the handler, before the confirmation prompt, before any file is written or
  directory made, and before anything is installed. Only the handler's cleanup can have
  touched the disk.
\<close>

theorem unresolved_paths_fail_early:
  assumes run: "init E cwd files = (out, w)"
    and called: "ResolveConfigPaths cwd config \<in> set (trace w)"
    and reply: "resolveConfigPaths_reply E cwd config = Inr paths"
    and empty: "resolved_components paths = [] \<or> resolved_css paths = []"
  shows "HandleError (Error ''Failed to resolve components alias, please enter a valid alias.'')
           \<in> set (trace w)
       \<and> out \<noteq> Done
       \<and> \<not> list_ex (\<lambda>e. e = Prompt ''proceed'' \<or> is_write e \<or> is_install e) (trace w)
       \<and> (fs w = files \<or> fs w = files(config_file cwd := None))"
proof -
  from run have out: "out = fst (init E cwd files)" and w: "w = snd (init E cwd files)"
    by simp_all
  note catch = init_catch_mem [where ev = "ResolveConfigPaths cwd config"]
  show ?thesis
  proof (cases rule: init_try_cases [where E = E and cwd = cwd and w = "\<lparr>fs = files, trace = []\<rparr>"])
    case no_target
    with called show ?thesis unfolding out w by (simp add: init_def)
  next
    case no_manifest
    with called show ?thesis unfolding out w by (simp add: init_def)
  next
    case no_framework
    with called show ?thesis unfolding out w by (simp add: init_def)
  next
    case (validated checks)
    have checks: "checks = [CheckPackageExists ''react'' cwd]
        \<or> checks = [CheckPackageExists ''react'' cwd, CheckPackageExists ''next'' cwd]"
      using validated(4) by simp
    note tried = validated(5)
    let ?w = "\<lparr>fs = files, trace = []\<rparr>\<lparr>trace := trace \<lparr>fs = files, trace = []\<rparr> @
                [LoggerInfo ''Initializing Atomic UI'', ExistsSync cwd,
                 SpinnerStart ''Validating project...'',
                 ExistsSync (path_resolve cwd ''package.json'')] @ checks @
                [SpinnerSucceed ''Validating project...'']\<rparr>"
    show ?thesis
    proof (cases rule: promptForProjectDetails_cases [where E = E and cwd = cwd and w = ?w])
      case (unresolved themes i typed_css typed_alias paths')
      then show ?thesis
        unfolding out w
        using checks
        by (auto simp: init_def tried init_catch_handled init_catch_not_Done
              init_catch_list_ex init_catch_fs_record event_kinds)
    next
      case (persisted themes i typed_css typed_alias paths' w')
      let ?config = "\<lparr>theme = theme (assembled themes i typed_css typed_alias),
                 alias' = alias' (assembled themes i typed_css typed_alias),
                 resolvedPaths = paths'\<rparr>"
      let ?w' = "w'\<lparr>trace := trace w' @
          [LoggerInfo ''Project configuration saved to getatomic.components.json'']\<rparr>"
      have "init E cwd files =
          (case runInit E cwd ?config ?w' of
             Ok u w' \<Rightarrow> (Done, w')
           | Throw e w' \<Rightarrow> init_catch E cwd e w'
           | Exit code w' \<Rightarrow> (Exited code, w'))"
        using tried persisted(10) by (simp add: init_def)
      then obtain new where "trace (snd (init E cwd files)) = trace ?w' @ new"
        and "\<forall>c r. ResolveConfigPaths c r \<notin> set new"
        using after_persisted [where E = E and cwd = cwd and config = ?config and w = ?w']
        by auto
      with called have "config = assembled themes i typed_css typed_alias"
        unfolding w using checks by (auto simp: persisted(12))
      with persisted reply empty show ?thesis by simp
    qed (use called reply empty checks in \<open>auto simp: out w init_def tried init_catch_mem\<close>)
  qed
qed

theorem unresolved_paths_fail_early_witness:
  "HandleError (Error ''Failed to resolve components alias, please enter a valid alias.'')
     \<in> set (trace (snd (init
          (example_externals\<lparr>resolveConfigPaths_reply :=
             (\<lambda>cwd config. Inr \<lparr>resolved_components = [], resolved_css = ''/proj/app/globals.css''\<rparr>)\<rparr>)
          ''/proj'' example_project)))
   \<and> fst (init
          (example_externals\<lparr>resolveConfigPaths_reply :=
             (\<lambda>cwd config. Inr \<lparr>resolved_components = [], resolved_css = ''/proj/app/globals.css''\<rparr>)\<rparr>)
          ''/proj'' example_project) \<noteq> Done
   \<and> \<not> list_ex (\<lambda>e. e = Prompt ''proceed'' \<or> is_write e \<or> is_install e)
        (trace (snd (init
          (example_externals\<lparr>resolveConfigPaths_reply :=
             (\<lambda>cwd config. Inr \<lparr>resolved_components = [], resolved_css = ''/proj/app/globals.css''\<rparr>)\<rparr>)
          ''/proj'' example_project)))"
proof -
  let ?E = "example_externals\<lparr>resolveConfigPaths_reply :=
     (\<lambda>cwd config. Inr \<lparr>resolved_components = [], resolved_css = ''/proj/app/globals.css''\<rparr>)\<rparr>"
  let ?config = "\<lparr>theme = \<lparr>name = ''t2'', css = ''app/globals.css''\<rparr>,
                  alias' = \<lparr>components = ''@/components/getatomic''\<rparr>\<rparr>"
  have run: "init ?E ''/proj'' example_project
      = (fst (init ?E ''/proj'' example_project), snd (init ?E ''/proj'' example_project))"
    by simp
  have called: "ResolveConfigPaths ''/proj'' ?config
      \<in> set (trace (snd (init ?E ''/proj'' example_project)))"
    by code_simp
  have reply: "resolveConfigPaths_reply ?E ''/proj'' ?config
      = Inr \<lparr>resolved_components = [], resolved_css = ''/proj/app/globals.css''\<rparr>"
    by simp
  have empty: "resolved_components \<lparr>resolved_components = [], resolved_css = ''/proj/app/globals.css''\<rparr> = []
      \<or> resolved_css \<lparr>resolved_components = [], resolved_css = ''/proj/app/globals.css''\<rparr> = []"
    by simp
  show ?thesis
    using unresolved_paths_fail_early [OF run called reply empty] by simp
qed

subsection \<open>C7: the order of the steps\<close>



subsection \<open>C8: the install step\<close>

text \<open>
  C8: \<^verbatim>\<open>runInit\<close> never spawns more than one subprocess, and none when the fetched
  dependency list is empty. Once it has written the stylesheet, an empty list makes it
  return after logging \<^verbatim>\<open>No dependencies to install.\<close>; a non-empty list spawns exactly
  one subprocess, the detected package manager with \<^verbatim>\<open>install\<close> (for npm) or \<^verbatim>\<open>add\<close>
  (for any other manager) followed by the dependency list, in the target directory with
  inherited standard I/O, and \<^verbatim>\<open>runInit\<close> awaits it: it returns exactly when the
  subprocess completes without an error.
\<close>

theorem install_step:
  assumes payload: "getInitData_reply E (name (theme config)) = Inr d"
  shows "length (filter is_install (events_since w (runInit E cwd config w))) \<le> 1
       \<and> (dependencies d = []
            \<longrightarrow> filter is_install (events_since w (runInit E cwd config w)) = [])
       \<and> (SpinnerSucceed ''Initializing project...''
              \<in> set (events_since w (runInit E cwd config w))
            \<longrightarrow> filter is_install (events_since w (runInit E cwd config w))
                  = (if dependencies d = [] then []
                     else [Execa (getPackageManager_reply E cwd)
                             ((if getPackageManager_reply E cwd = ''npm'' then ''install''
                               else ''add'') # dependencies d)
                             cwd Inherit])
              \<and> (dependencies d = []
                   \<longrightarrow> returned (runInit E cwd config w)
                     \<and> last (events_since w (runInit E cwd config w))
                         = LoggerInfo ''No dependencies to install.'')
              \<and> (dependencies d \<noteq> []
                   \<longrightarrow> returned (runInit E cwd config w)
                       = (execa_reply E (getPackageManager_reply E cwd)
                            ((if getPackageManager_reply E cwd = ''npm'' then ''install''
                              else ''add'') # dependencies d)
                            cwd = None)))"
  using payload
  by (cases rule: runInit_cases [where E = E and cwd = cwd and config = config and w = w])
     (auto simp: events_since_def returned_def event_kinds)

theorem install_step_witness:
  "filter is_install
     (events_since \<lparr>fs = example_project, trace = []\<rparr>
        (runInit example_externals ''/proj''
           \<lparr>theme = \<lparr>name = ''t2'', css = ''app/globals.css''\<rparr>,
            alias' = \<lparr>components = ''@/components/getatomic''\<rparr>,
            resolvedPaths = \<lparr>resolved_components = ''/proj/components/getatomic'',
                             resolved_css = ''/proj/app/globals.css''\<rparr>\<rparr>
           \<lparr>fs = example_project, trace = []\<rparr>))
     = [Execa ''npm'' [''install'', ''clsx''] ''/proj'' Inherit]
   \<and> returned
        (runInit example_externals ''/proj''
           \<lparr>theme = \<lparr>name = ''t2'', css = ''app/globals.css''\<rparr>,
            alias' = \<lparr>components = ''@/components/getatomic''\<rparr>,
            resolvedPaths = \<lparr>resolved_components = ''/proj/components/getatomic'',
                             resolved_css = ''/proj/app/globals.css''\<rparr>\<rparr>
           \<lparr>fs = example_project, trace = []\<rparr>)"
proof -
  let ?config = "\<lparr>theme = \<lparr>name = ''t2'', css = ''app/globals.css''\<rparr>,
            alias' = \<lparr>components = ''@/components/getatomic''\<rparr>,
            resolvedPaths = \<lparr>resolved_components = ''/proj/components/getatomic'',
                             resolved_css = ''/proj/app/globals.css''\<rparr>\<rparr>"
  let ?w = "\<lparr>fs = example_project, trace = []\<rparr>"
  have payload: "getInitData_reply example_externals (name (theme ?config))
      = Inr \<lparr>initData_css = ''body{}'', dependencies = [''clsx'']\<rparr>"
    by (simp add: example_externals_def)
  have reached: "SpinnerSucceed ''Initializing project...''
      \<in> set (events_since ?w (runInit example_externals ''/proj'' ?config ?w))"
    by code_simp
  show ?thesis
    using install_step [OF payload, of ?w "''/proj''"] reached
    by (simp add: example_externals_def)
qed

subsection \<open>C9: the framework check\<close>

text \<open>
  C9: for every target directory that holds a \<^verbatim>\<open>package.json\<close>, the validation
  succeeds (its spinner reports success) if and only if \<^verbatim>\<open>checkPackageExists\<close> finds
  \<^verbatim>\<open>react\<close> or \<^verbatim>\<open>next\<close>; when it finds neither, \<^verbatim>\<open>init\<close> exits with code 1 with
  the file system as it was and without any prompt, fetch, write or install call.
\<close>

theorem framework_validation:
  assumes target: "files cwd \<noteq> None"
    and manifest: "files (path_resolve cwd ''package.json'') \<noteq> None"
  shows "(SpinnerSucceed ''Validating project...'' \<in> set (trace (snd (init E cwd files))))
           = (checkPackageExists_reply E ''react'' cwd \<or> checkPackageExists_reply E ''next'' cwd)
       \<and> (\<not> checkPackageExists_reply E ''react'' cwd \<and> \<not> checkPackageExists_reply E ''next'' cwd
            \<longrightarrow> fst (init E cwd files) = Exited 1
              \<and> fs (snd (init E cwd files)) = files
              \<and> \<not> list_ex (\<lambda>e. is_prompt e \<or> is_fetch e \<or> is_write e \<or> is_install e)
                   (trace (snd (init E cwd files))))"
proof (cases rule: init_try_cases [where E = E and cwd = cwd and w = "\<lparr>fs = files, trace = []\<rparr>"])
  case no_target
  with target show ?thesis by simp
next
  case no_manifest
  with manifest show ?thesis by simp
next
  case no_framework
  then show ?thesis by (simp add: init_def event_kinds)
next
  case (validated checks)
  from init_after_validation [OF validated(5)]
  obtain new where "trace (snd (init E cwd files)) =
      ([LoggerInfo ''Initializing Atomic UI'', ExistsSync cwd,
        SpinnerStart ''Validating project...'',
        ExistsSync (path_resolve cwd ''package.json'')] @ checks @
       [SpinnerSucceed ''Validating project...'']) @ new"
    by auto
  with validated(3) show ?thesis by auto
qed

theorem framework_validation_witness:
  "SpinnerSucceed ''Validating project...''
     \<notin> set (trace (snd (init (example_externals\<lparr>checkPackageExists_reply := (\<lambda>pkg cwd. False)\<rparr>)
                          ''/proj'' example_project)))
   \<and> fst (init (example_externals\<lparr>checkPackageExists_reply := (\<lambda>pkg cwd. False)\<rparr>)
            ''/proj'' example_project) = Exited 1
   \<and> fs (snd (init (example_externals\<lparr>checkPackageExists_reply := (\<lambda>pkg cwd. False)\<rparr>)
            ''/proj'' example_project)) = example_project
   \<and> \<not> list_ex (\<lambda>e. is_prompt e \<or> is_fetch e \<or> is_write e \<or> is_install e)
        (trace (snd (init (example_externals\<lparr>checkPackageExists_reply := (\<lambda>pkg cwd. False)\<rparr>)
            ''/proj'' example_project)))"
proof -
  have target: "example_project ''/proj'' \<noteq> None"
    by (simp add: example_project_def)
  have manifest: "example_project (path_resolve ''/proj'' ''package.json'') \<noteq> None"
    by (simp add: example_project_def path_resolve_def)
  show ?thesis
    using framework_validation [OF target manifest,
        of "example_externals\<lparr>checkPackageExists_reply := (\<lambda>pkg cwd. False)\<rparr>"]
    by simp
qed

subsection \<open>C10: the persisted theme name is the chosen theme's id\<close>

text \<open>
  C10: whenever \<^verbatim>\<open>promptForProjectDetails\<close> persists the configuration, the operator's
  choice is one of the themes that \<^verbatim>\<open>getThemes\<close> returned, and the field
  \<^verbatim>\<open>theme.name\<close>, in the returned configuration and in the JSON read back from the
  written file, is the \<^verbatim>\<open>id\<close> of that theme (the select prompt's value), not its
  display name.
\<close>

theorem persisted_theme_is_chosen_id:
  assumes persisted: "promptForProjectDetails E cwd w = Ok config w'"
    and themes: "getThemes_reply E = Inr themes"
    and picked: "operator_theme E = Answered i"
  shows "i < length themes
       \<and> name (theme config) = Theme_id (themes ! i)
       \<and> Option.bind
            (Option.bind (Option.bind (readFile (fs w') (config_file cwd)) JSON_parse)
               (json_get ''theme''))
            (json_get ''name'')
         = Some (JString (Theme_id (themes ! i)))"
  using promptForProjectDetails_Ok [OF persisted] themes picked
  by (auto simp: readFile_def JSON_roundtrip config_json_def json_get_def RawConfig.truncate_def)

theorem persisted_theme_is_chosen_id_witness:
  "(1::nat) < length [\<lparr>Theme_id = ''t1'', Theme_name = ''Default''\<rparr>,
                      \<lparr>Theme_id = ''t2'', Theme_name = ''Dark''\<rparr>]
   \<and> Option.bind
        (Option.bind
           (Option.bind
              (readFile
                 (fs (world_of (promptForProjectDetails example_externals ''/proj''
                                  \<lparr>fs = example_project, trace = []\<rparr>)))
                 (config_file ''/proj''))
              JSON_parse)
           (json_get ''theme''))
        (json_get ''name'')
     = Some (JString ''t2'')"
proof -
  let ?w = "\<lparr>fs = example_project, trace = []\<rparr>"
  let ?themes = "[\<lparr>Theme_id = ''t1'', Theme_name = ''Default''\<rparr>,
                  \<lparr>Theme_id = ''t2'', Theme_name = ''Dark''\<rparr>]"
  have "returned (promptForProjectDetails example_externals ''/proj'' ?w)"
    by code_simp
  then obtain config w' where
    persisted: "promptForProjectDetails example_externals ''/proj'' ?w = Ok config w'"
    by (cases "promptForProjectDetails example_externals ''/proj'' ?w")
       (simp_all add: returned_def)
  have themes: "getThemes_reply example_externals = Inr ?themes"
    by (simp add: example_externals_def)
  have picked: "operator_theme example_externals = Answered 1"
    by (simp add: example_externals_def)
  show ?thesis
    using persisted_theme_is_chosen_id [OF persisted themes picked] persisted by simp
qed


end
